theory Spec2Isabelle
  imports Main "HOL-Library.Word"
begin

section \<open>qmi-firmware-update: option callbacks, device selection and dispatch\<close>

text \<open>
  A shallow embedding of \<^verbatim>\<open>src/qmi-firmware-update/qfu-main.c\<close>. The file-level
  option variables are one record that is passed in and returned; everything the
  program prints or calls is recorded, in order, as a list of events.
\<close>

subsection \<open>The option variables (lines 44-71)\<close>

text \<open>
  \<^verbatim>\<open>guint\<close> is 32 bits wide and \<^verbatim>\<open>guint16\<close> 16 bits. A \<^verbatim>\<open>gchar *\<close> that
  may be \<^verbatim>\<open>NULL\<close> is a \<open>string option\<close>; \<^verbatim>\<open>image_strv\<close> stays \<^verbatim>\<open>NULL\<close>
  when the command line has no positional argument. A \<^verbatim>\<open>gboolean\<close> behind a
  \<^verbatim>\<open>G_OPTION_ARG_NONE\<close> entry only ever holds \<^verbatim>\<open>FALSE\<close> or \<^verbatim>\<open>TRUE\<close>.
\<close>

record globals =
  busnum :: "32 word"
  devnum :: "32 word"
  vid :: "16 word"
  pid :: "16 word"
  action_update_flag :: bool
  device_str :: "string option"
  firmware_version_str :: "string option"
  config_version_str :: "string option"
  carrier_str :: "string option"
  device_open_proxy_flag :: bool
  device_open_mbim_flag :: bool
  action_update_qdl_flag :: bool
  serial_str :: "string option"
  action_verify_flag :: bool
  image_strv :: "string list option"
  verbose_flag :: bool
  silent_flag :: bool
  version_flag :: bool
  help_flag :: bool

text \<open>The values the C runtime gives the statics before any option is processed.\<close>

definition initial_globals :: globals where
  "initial_globals =
     \<lparr>busnum = 0, devnum = 0, vid = 0, pid = 0,
      action_update_flag = False, device_str = None, firmware_version_str = None,
      config_version_str = None, carrier_str = None,
      device_open_proxy_flag = False, device_open_mbim_flag = False,
      action_update_qdl_flag = False, serial_str = None,
      action_verify_flag = False, image_strv = None,
      verbose_flag = False, silent_flag = False, version_flag = False, help_flag = False\<rparr>"

subsection \<open>Library functions the callbacks use\<close>

text \<open>
  \<^verbatim>\<open>g_strsplit (value, ":", -1)\<close>: the fields between the delimiters, with no limit
  on their number. A string with \<open>n\<close> delimiters has \<open>n + 1\<close> fields, some of them
  possibly empty; as GLib documents, the empty string is the one exception and splits
  into the empty vector. The delimiter of both callers is the single character \<open>:\<close>.
\<close>

fun split_fields :: "char \<Rightarrow> string \<Rightarrow> string list" where
  "split_fields d [] = [[]]"
| "split_fields d (c # cs) =
     (if c = d then [] # split_fields d cs
      else (case split_fields d cs of
              [] \<Rightarrow> [[c]]
            | f # fs \<Rightarrow> (c # f) # fs))"

definition g_strsplit :: "string \<Rightarrow> char \<Rightarrow> string list" where
  "g_strsplit str delimiter = (if str = [] then [] else split_fields delimiter str)"

text \<open>
  \<^verbatim>\<open>strtoul (nptr, NULL, base)\<close> for the two bases used here, 10 and 16, on a
  target whose \<^verbatim>\<open>unsigned long\<close> has 64 bits (the LP64 targets of the program; the
  test \<^verbatim>\<open>aux > G_MAXUINT\<close> of the callers can only ever hold there). Leading white
  space (that of the C locale) is skipped, one sign is accepted, base 16 accepts a \<^verbatim>\<open>0x\<close> prefix, and the
  longest run of digits of the base is converted; what follows is ignored, since
  the callers pass no end pointer. No digits give 0. A value that does not fit gives
  \<^verbatim>\<open>ULONG_MAX\<close>; otherwise a minus sign negates the value in the unsigned type.
\<close>

definition ULONG_MAX :: nat where
  "ULONG_MAX = 2 ^ 64 - 1"

definition G_MAXUINT :: "64 word" where
  "G_MAXUINT = 0xFFFFFFFF"

definition G_MAXUINT16 :: "64 word" where
  "G_MAXUINT16 = 0xFFFF"

definition isspace :: "char \<Rightarrow> bool" where
  "isspace c \<longleftrightarrow> c = CHR '' '' \<or> (9 \<le> (of_char c :: nat) \<and> (of_char c :: nat) \<le> 13)"

definition digit_value :: "char \<Rightarrow> nat option" where
  "digit_value c =
     (let n = (of_char c :: nat) in
      if 48 \<le> n \<and> n \<le> 57 then Some (n - 48)
      else if 97 \<le> n \<and> n \<le> 122 then Some (n - 97 + 10)
      else if 65 \<le> n \<and> n \<le> 90 then Some (n - 65 + 10)
      else None)"

fun scan_digits :: "nat \<Rightarrow> nat \<Rightarrow> string \<Rightarrow> nat" where
  "scan_digits base acc [] = acc"
| "scan_digits base acc (c # cs) =
     (case digit_value c of
        None \<Rightarrow> acc
      | Some d \<Rightarrow> if d < base then scan_digits base (acc * base + d) cs else acc)"

fun has_hex_prefix :: "string \<Rightarrow> bool" where
  "has_hex_prefix (c0 # c1 # cs) \<longleftrightarrow> c0 = CHR ''0'' \<and> (c1 = CHR ''x'' \<or> c1 = CHR ''X'')"
| "has_hex_prefix cs \<longleftrightarrow> False"

fun has_sign :: "string \<Rightarrow> bool" where
  "has_sign (c # cs) \<longleftrightarrow> c = CHR ''-'' \<or> c = CHR ''+''"
| "has_sign [] \<longleftrightarrow> False"

fun is_negative :: "string \<Rightarrow> bool" where
  "is_negative (c # cs) \<longleftrightarrow> c = CHR ''-''"
| "is_negative [] \<longleftrightarrow> False"

definition strtoul :: "string \<Rightarrow> nat \<Rightarrow> 64 word" where
  "strtoul nptr base =
     (let s0 = dropWhile isspace nptr;
          s1 = (if has_sign s0 then tl s0 else s0);
          s2 = (if base = 16 \<and> has_hex_prefix s1 then drop 2 s1 else s1);
          v = scan_digits base 0 s2
      in if ULONG_MAX < v then of_nat ULONG_MAX
         else if is_negative s0 then - of_nat v
         else of_nat v)"

subsection \<open>The option callbacks (lines 73-166)\<close>

text \<open>
  A callback either trips \<^verbatim>\<open>g_assert (strv[0])\<close>, which aborts the process, or
  returns \<^verbatim>\<open>FALSE\<close> with the \<^verbatim>\<open>GError\<close> message set, or returns \<^verbatim>\<open>TRUE\<close>. The
  record with each result is what the callback has left in the option variables. The
  parameters \<^verbatim>\<open>option_name\<close> and \<^verbatim>\<open>data\<close> are never read and are left out.
\<close>

datatype parse_outcome =
    Assertion_failed
  | Parse_error string globals
  | Parse_ok globals

definition parse_busnum_devnum :: "string \<Rightarrow> globals \<Rightarrow> parse_outcome" where
  "parse_busnum_devnum val g =
     (case g_strsplit val CHR '':'' of
        [] \<Rightarrow> Assertion_failed
      | [dev] \<Rightarrow>
          (let aux = strtoul dev 10 in
           if aux = 0 \<or> aux > G_MAXUINT
           then Parse_error (''invalid dev number: '' @ dev) g
           else Parse_ok (g\<lparr>devnum := ucast aux\<rparr>))
      | [bus, dev] \<Rightarrow>
          (let aux = strtoul bus 10 in
           if aux = 0 \<or> aux > G_MAXUINT
           then Parse_error (''invalid bus number: '' @ bus) g
           else
             (let g1 = g\<lparr>busnum := ucast aux\<rparr>;
                  aux = strtoul dev 10 in
              if aux = 0 \<or> aux > G_MAXUINT
              then Parse_error (''invalid dev number: '' @ dev) g1
              else Parse_ok (g1\<lparr>devnum := ucast aux\<rparr>)))
      | _ \<Rightarrow> Parse_error ''invalid busnum-devnum string: too many fields'' g)"

definition parse_vid_pid :: "string \<Rightarrow> globals \<Rightarrow> parse_outcome" where
  "parse_vid_pid val g =
     (case g_strsplit val CHR '':'' of
        [] \<Rightarrow> Assertion_failed
      | [v] \<Rightarrow>
          (let aux = strtoul v 16 in
           if aux = 0 \<or> aux > G_MAXUINT16
           then Parse_error (''invalid vendor id: '' @ v) g
           else Parse_ok (g\<lparr>vid := ucast aux\<rparr>))
      | [v, p] \<Rightarrow>
          (let aux = strtoul p 16 in
           if aux = 0 \<or> aux > G_MAXUINT16
           then Parse_error (''invalid product id: '' @ p) g
           else
             (let g1 = g\<lparr>pid := ucast (ucast aux :: 32 word)\<rparr>;
                  aux = strtoul v 16 in
              if aux = 0 \<or> aux > G_MAXUINT16
              then Parse_error (''invalid vendor id: '' @ v) g1
              else Parse_ok (g1\<lparr>vid := ucast aux\<rparr>)))
      | _ \<Rightarrow> Parse_error ''invalid vid-pid string: too many fields'' g)"

subsection \<open>The collaborators and what a run does\<close>

text \<open>
  The helpers of \<^verbatim>\<open>qfu-udev-helpers.h\<close> and the operations of
  \<^verbatim>\<open>qfu-operation.h\<close> are declared outside this file; the code here is verified
  for arbitrary ones. \<^verbatim>\<open>qfu_udev_helper_find_by_device_info\<close> returns either a
  sysfs path (\<open>Inr\<close>) or \<^verbatim>\<open>NULL\<close> with the message of the \<^verbatim>\<open>GError\<close> it has
  set (\<open>Inl\<close>). \<^verbatim>\<open>qfu_udev_helper_list_devices\<close> returns a list of \<^verbatim>\<open>GFile\<close>
  objects, \<^verbatim>\<open>NULL\<close> being the empty list; \<^verbatim>\<open>g_file_get_path\<close> gives the path of
  a \<^verbatim>\<open>GFile\<close>, or \<^verbatim>\<open>NULL\<close> when it has none.
\<close>

datatype QfuUdevHelperDeviceType =
    QFU_UDEV_HELPER_DEVICE_TYPE_TTY
  | QFU_UDEV_HELPER_DEVICE_TYPE_CDC_WDM

datatype GFile = GFile (g_file_get_path: "string option")

record collaborators =
  qfu_udev_helper_find_by_device_info ::
    "16 word \<Rightarrow> 16 word \<Rightarrow> 32 word \<Rightarrow> 32 word \<Rightarrow> string + string"
  qfu_udev_helper_list_devices :: "QfuUdevHelperDeviceType \<Rightarrow> string \<Rightarrow> GFile list"
  qfu_operation_update_run ::
    "string list \<Rightarrow> string \<Rightarrow> string option \<Rightarrow> string option \<Rightarrow> string option \<Rightarrow>
     bool \<Rightarrow> bool \<Rightarrow> bool"
  qfu_operation_update_qdl_run :: "string list \<Rightarrow> string \<Rightarrow> bool"
  qfu_operation_verify_run :: "string list \<Rightarrow> bool"

text \<open>
  One event for each thing a run prints or calls, with the arguments passed. The
  version and help texts depend on the build and on GLib and are not spelled out.
\<close>

datatype event =
    G_printerr string
  | Print_version
  | Print_help
  | Set_traces_enabled
  | G_debug string
  | Find_by_device_info "16 word" "16 word" "32 word" "32 word"
  | List_devices QfuUdevHelperDeviceType string
  | Update_run "string list" string "string option" "string option" "string option" bool bool
  | Update_qdl_run "string list" string
  | Verify_run "string list"

datatype exit_status = EXIT_SUCCESS | EXIT_FAILURE | Aborted

definition exit_of :: "bool \<Rightarrow> exit_status" where
  "exit_of result = (if result then EXIT_SUCCESS else EXIT_FAILURE)"

subsection \<open>Device selection (lines 356-406)\<close>

definition select_path ::
  "collaborators \<Rightarrow> globals \<Rightarrow> string option \<Rightarrow> QfuUdevHelperDeviceType \<Rightarrow>
   string option \<times> event list" where
  "select_path c g manual type =
     (if manual \<noteq> None \<and> (vid g \<noteq> 0 \<or> pid g \<noteq> 0) then
        (None, [G_printerr ''error: cannot specify device path and vid:pid lookup\<newline>''])
      else if manual \<noteq> None \<and> (busnum g \<noteq> 0 \<or> devnum g \<noteq> 0) then
        (None, [G_printerr ''error: cannot specify device path and busnum:devnum lookup\<newline>''])
      else if (vid g \<noteq> 0 \<or> pid g \<noteq> 0) \<and> (busnum g \<noteq> 0 \<or> devnum g \<noteq> 0) then
        (None, [G_printerr ''error: cannot specify busnum:devnum and vid:pid lookups\<newline>''])
      else
        (case manual of
           Some m \<Rightarrow> (Some m, [])
         | None \<Rightarrow>
             (case qfu_udev_helper_find_by_device_info c (vid g) (pid g) (busnum g) (devnum g) of
                Inl message \<Rightarrow>
                  (None,
                   [Find_by_device_info (vid g) (pid g) (busnum g) (devnum g),
                    G_printerr (''error: '' @ message @ ''\<newline>'')])
              | Inr sysfs_path \<Rightarrow>
                  (case qfu_udev_helper_list_devices c type sysfs_path of
                     [] \<Rightarrow>
                       (None,
                        [Find_by_device_info (vid g) (pid g) (busnum g) (devnum g),
                         List_devices type sysfs_path,
                         G_printerr (''error: no devices found in sysfs path: '' @ sysfs_path
                                     @ ''\<newline>'')])
                   | file # rest \<Rightarrow>
                       (g_file_get_path file,
                        [Find_by_device_info (vid g) (pid g) (busnum g) (devnum g),
                         List_devices type sysfs_path])))))"

subsection \<open>The main program (lines 408-520)\<close>

text \<open>
  \<^verbatim>\<open>g_option_context_parse\<close> belongs to GLib. Its outcome is taken as given: the
  message of the error it reports, if any, and the option variables as it leaves
  them. Installing the log handlers prints and calls nothing; with \<^verbatim>\<open>--verbose\<close>
  the traces of the QMI library are switched on before anything else happens.
\<close>

definition log_setup :: "globals \<Rightarrow> event list" where
  "log_setup g = (if verbose_flag g then [Set_traces_enabled] else [])"

definition n_actions :: "globals \<Rightarrow> nat" where
  "n_actions g =
     of_bool (action_verify_flag g) + of_bool (action_update_flag g)
     + of_bool (action_update_qdl_flag g)"

definition main :: "collaborators \<Rightarrow> string option \<Rightarrow> globals \<Rightarrow> exit_status \<times> event list" where
  "main c parse_error g =
     (case parse_error of
        Some message \<Rightarrow>
          (EXIT_FAILURE,
           [G_printerr (''error: couldn't parse option context: '' @ message @ ''\<newline>'')])
      | None \<Rightarrow>
          if version_flag g then (EXIT_SUCCESS, [Print_version])
          else if help_flag g then (EXIT_SUCCESS, [Print_help])
          else
            (let log = log_setup g in
             if n_actions g = 0 then
               (EXIT_FAILURE, log @ [G_printerr ''error: no actions specified\<newline>''])
             else if n_actions g > 1 then
               (EXIT_FAILURE, log @ [G_printerr ''error: too many actions specified\<newline>''])
             else
               (case image_strv g of
                  None \<Rightarrow>
                    (EXIT_FAILURE,
                     log @ [G_printerr ''error: no firmware images specified\<newline>''])
                | Some images \<Rightarrow>
                    if action_update_flag g then
                      (case select_path c g (device_str g) QFU_UDEV_HELPER_DEVICE_TYPE_CDC_WDM of
                         (None, evs) \<Rightarrow> (EXIT_FAILURE, log @ evs)
                       | (Some path, evs) \<Rightarrow>
                           (exit_of (qfu_operation_update_run c images path
                                       (firmware_version_str g) (config_version_str g)
                                       (carrier_str g) (device_open_proxy_flag g)
                                       (device_open_mbim_flag g)),
                            log @ evs @
                            [G_debug (''using cdc-wdm device: '' @ path),
                             Update_run images path (firmware_version_str g)
                               (config_version_str g) (carrier_str g)
                               (device_open_proxy_flag g) (device_open_mbim_flag g)]))
                    else if action_update_qdl_flag g then
                      (case select_path c g (serial_str g) QFU_UDEV_HELPER_DEVICE_TYPE_TTY of
                         (None, evs) \<Rightarrow> (EXIT_FAILURE, log @ evs)
                       | (Some path, evs) \<Rightarrow>
                           (exit_of (qfu_operation_update_qdl_run c images path),
                            log @ evs @
                            [G_debug (''using tty device: '' @ path),
                             Update_qdl_run images path]))
                    else if action_verify_flag g then
                      (exit_of (qfu_operation_verify_run c images),
                       log @ [Verify_run images])
                    else (Aborted, log))))"

subsection \<open>Vocabulary of the specification\<close>

text \<open>
  The specification speaks of decimal and hexadecimal strings and of the value they
  denote. This is the usual positional reading, written independently of
  \<open>strtoul\<close>: a string denotes a value only if it is non-empty and all of its
  characters are digits of the radix.
\<close>

definition decimal_digits :: "(char \<times> nat) list" where
  "decimal_digits =
     [(CHR ''0'', 0), (CHR ''1'', 1), (CHR ''2'', 2), (CHR ''3'', 3), (CHR ''4'', 4),
      (CHR ''5'', 5), (CHR ''6'', 6), (CHR ''7'', 7), (CHR ''8'', 8), (CHR ''9'', 9)]"

definition hexadecimal_digits :: "(char \<times> nat) list" where
  "hexadecimal_digits =
     decimal_digits @
     [(CHR ''a'', 10), (CHR ''b'', 11), (CHR ''c'', 12), (CHR ''d'', 13), (CHR ''e'', 14),
      (CHR ''f'', 15), (CHR ''A'', 10), (CHR ''B'', 11), (CHR ''C'', 12), (CHR ''D'', 13),
      (CHR ''E'', 14), (CHR ''F'', 15)]"

fun positional :: "(char \<times> nat) list \<Rightarrow> nat \<Rightarrow> nat \<Rightarrow> string \<Rightarrow> nat option" where
  "positional digits radix acc [] = Some acc"
| "positional digits radix acc (c # cs) =
     (case map_of digits c of
        None \<Rightarrow> None
      | Some d \<Rightarrow> positional digits radix (radix * acc + d) cs)"

definition decimal_value :: "string \<Rightarrow> nat option" where
  "decimal_value s = (if s = [] then None else positional decimal_digits 10 0 s)"

definition hexadecimal_value :: "string \<Rightarrow> nat option" where
  "hexadecimal_value s = (if s = [] then None else positional hexadecimal_digits 16 0 s)"

text \<open>All four identifiers hold the sentinel 0.\<close>

definition identifiers_unset :: "globals \<Rightarrow> bool" where
  "identifiers_unset g \<longleftrightarrow> busnum g = 0 \<and> devnum g = 0 \<and> vid g = 0 \<and> pid g = 0"

fun is_parse_error :: "parse_outcome \<Rightarrow> bool" where
  "is_parse_error (Parse_error message g) \<longleftrightarrow> True"
| "is_parse_error outcome \<longleftrightarrow> False"

text \<open>The events that are calls of the enumeration helpers, and of an operation.\<close>

fun is_enumeration :: "event \<Rightarrow> bool" where
  "is_enumeration (Find_by_device_info v p b d) \<longleftrightarrow> True"
| "is_enumeration (List_devices t path) \<longleftrightarrow> True"
| "is_enumeration ev \<longleftrightarrow> False"

fun is_operation :: "event \<Rightarrow> bool" where
  "is_operation (Update_run images path fw cfg carrier proxy mbim) \<longleftrightarrow> True"
| "is_operation (Update_qdl_run images path) \<longleftrightarrow> True"
| "is_operation (Verify_run images) \<longleftrightarrow> True"
| "is_operation ev \<longleftrightarrow> False"

fun is_printerr :: "event \<Rightarrow> bool" where
  "is_printerr (G_printerr message) \<longleftrightarrow> True"
| "is_printerr ev \<longleftrightarrow> False"

text \<open>
  Collaborators for the concrete runs below: one USB device at \<^verbatim>\<open>1-2\<close> with one
  device node, and operations that all succeed.
\<close>

definition example_collaborators :: collaborators where
  "example_collaborators =
     \<lparr>qfu_udev_helper_find_by_device_info = (\<lambda>v p b d. Inr ''/sys/bus/usb/devices/1-2''),
      qfu_udev_helper_list_devices = (\<lambda>t path. [GFile (Some ''/dev/cdc-wdm0'')]),
      qfu_operation_update_run = (\<lambda>images path fw cfg carrier proxy mbim. True),
      qfu_operation_update_qdl_run = (\<lambda>images path. True),
      qfu_operation_verify_run = (\<lambda>images. True)\<rparr>"

definition no_device_nodes :: collaborators where
  "no_device_nodes =
     example_collaborators\<lparr>qfu_udev_helper_list_devices := (\<lambda>t path. [])\<rparr>"

text \<open>
  The option variables after the command lines
  \<^verbatim>\<open>--update --vid-pid 1199:9071 fw.cwe\<close>,
  \<^verbatim>\<open>--verify file1.cwe file2.nvu\<close> and
  \<^verbatim>\<open>--verify --device /dev/cdc-wdm0 --vid-pid 1199:9071 --busnum-devnum 1:2 file1.cwe file2.nvu\<close>.
\<close>

definition update_by_vid_pid :: globals where
  "update_by_vid_pid =
     initial_globals\<lparr>vid := 0x1199, pid := 0x9071, action_update_flag := True,
                      image_strv := Some [''fw.cwe'']\<rparr>"

definition verify_plain :: globals where
  "verify_plain =
     initial_globals\<lparr>action_verify_flag := True,
                      image_strv := Some [''file1.cwe'', ''file2.nvu'']\<rparr>"

definition verify_with_all_selections :: globals where
  "verify_with_all_selections =
     verify_plain\<lparr>device_str := Some ''/dev/cdc-wdm0'', vid := 0x1199, pid := 0x9071,
                   busnum := 1, devnum := 2\<rparr>"

text \<open>
  The option variables after
  \<^verbatim>\<open>--update-qdl --device /dev/cdc-wdm0 --vid-pid 1199 fw.cwe\<close> and after
  \<^verbatim>\<open>--update --serial /dev/ttyUSB0 --vid-pid 1199 fw.cwe\<close>: a manual path that
  belongs to the other action, together with a vid:pid lookup. The collaborators of
  the first run list a serial node.
\<close>

definition qdl_with_device_and_vid_pid :: globals where
  "qdl_with_device_and_vid_pid =
     initial_globals\<lparr>action_update_qdl_flag := True, device_str := Some ''/dev/cdc-wdm0'',
                      vid := 0x1199, image_strv := Some [''fw.cwe'']\<rparr>"

definition update_with_serial_and_vid_pid :: globals where
  "update_with_serial_and_vid_pid =
     initial_globals\<lparr>action_update_flag := True, serial_str := Some ''/dev/ttyUSB0'',
                      vid := 0x1199, image_strv := Some [''fw.cwe'']\<rparr>"

definition serial_node_collaborators :: collaborators where
  "serial_node_collaborators =
     example_collaborators
       \<lparr>qfu_udev_helper_list_devices := (\<lambda>t path. [GFile (Some ''/dev/ttyUSB0'')])\<rparr>"

section \<open>Properties\<close>

subsection \<open>Splitting and reading numerals\<close>

lemma split_fields_no_delimiter: "d \<notin> set s \<Longrightarrow> split_fields d s = [s]"
  by (induction s) auto

lemma split_fields_append:
  "d \<notin> set s \<Longrightarrow> split_fields d (s @ d # t) = s # split_fields d t"
  by (induction s) auto

lemma g_strsplit_one: "s \<noteq> [] \<Longrightarrow> d \<notin> set s \<Longrightarrow> g_strsplit s d = [s]"
  by (simp add: g_strsplit_def split_fields_no_delimiter)

lemma g_strsplit_two:
  "d \<notin> set s \<Longrightarrow> d \<notin> set t \<Longrightarrow> g_strsplit (s @ d # t) d = [s, t]"
  by (simp add: g_strsplit_def split_fields_append split_fields_no_delimiter)

lemma decimal_digit_value:
  "map_of decimal_digits c = Some d \<Longrightarrow> digit_value c = Some d \<and> d < 10"
  by (auto simp: decimal_digits_def digit_value_def split: if_splits)

lemma hexadecimal_digit_value:
  "map_of hexadecimal_digits c = Some d \<Longrightarrow> digit_value c = Some d \<and> d < 16"
  by (auto simp: hexadecimal_digits_def decimal_digits_def digit_value_def split: if_splits)

text \<open>
  On a string of digits the scanning loop of \<open>strtoul\<close> computes the positional
  value; the accumulator is generalised for the induction.
\<close>

lemma positional_scan_digits:
  assumes "positional digits radix acc s = Some n"
    and "\<And>c d. map_of digits c = Some d \<Longrightarrow> digit_value c = Some d \<and> d < radix"
  shows "scan_digits radix acc s = n"
  using assms(1)
proof (induction s arbitrary: acc)
  case Nil
  then show ?case by simp
next
  case (Cons c cs)
  then obtain d where d: "map_of digits c = Some d"
    and rest: "positional digits radix (radix * acc + d) cs = Some n"
    by (auto split: option.splits)
  from assms(2)[OF d] Cons.IH[OF rest] show ?case
    by (simp add: mult.commute)
qed

lemma positional_chars:
  "positional digits radix acc s = Some n \<Longrightarrow> c \<in> set s \<Longrightarrow> map_of digits c \<noteq> None"
  by (induction s arbitrary: acc) (auto split: option.splits)

lemma decimal_plain:
  assumes "map_of decimal_digits c \<noteq> None"
  shows "\<not> isspace c" "c \<noteq> CHR ''-''" "c \<noteq> CHR ''+''" "c \<noteq> CHR '':''"
  using assms by (auto simp: decimal_digits_def isspace_def split: if_splits)

lemma hexadecimal_plain:
  assumes "map_of hexadecimal_digits c \<noteq> None"
  shows "\<not> isspace c" "c \<noteq> CHR ''-''" "c \<noteq> CHR ''+''" "c \<noteq> CHR '':''"
    "c \<noteq> CHR ''x''" "c \<noteq> CHR ''X''"
  using assms
  by (auto simp: hexadecimal_digits_def decimal_digits_def isspace_def split: if_splits)

lemma strtoul_decimal:
  assumes "decimal_value s = Some n"
  shows "strtoul s 10 = (if ULONG_MAX < n then of_nat ULONG_MAX else of_nat n)"
proof -
  from assms obtain c cs where s: "s = c # cs"
    by (cases s) (auto simp: decimal_value_def)
  from assms have p: "positional decimal_digits 10 0 s = Some n"
    by (auto simp: decimal_value_def split: if_splits)
  have c: "map_of decimal_digits c \<noteq> None"
    using positional_chars[OF p, of c] s by simp
  have v: "scan_digits 10 0 s = n"
    using positional_scan_digits[OF p] decimal_digit_value by blast
  show ?thesis
    using decimal_plain[OF c] v by (simp add: strtoul_def s)
qed

lemma strtoul_hexadecimal:
  assumes "hexadecimal_value s = Some n"
  shows "strtoul s 16 = (if ULONG_MAX < n then of_nat ULONG_MAX else of_nat n)"
proof -
  from assms obtain c cs where s: "s = c # cs"
    by (cases s) (auto simp: hexadecimal_value_def)
  from assms have p: "positional hexadecimal_digits 16 0 s = Some n"
    by (auto simp: hexadecimal_value_def split: if_splits)
  have c: "map_of hexadecimal_digits c \<noteq> None"
    using positional_chars[OF p, of c] s by simp
  have v: "scan_digits 16 0 s = n"
    using positional_scan_digits[OF p] hexadecimal_digit_value by blast
  have "\<not> has_hex_prefix s"
  proof (cases cs)
    case Nil
    then show ?thesis by (simp add: s)
  next
    case (Cons c1 cs1)
    have "map_of hexadecimal_digits c1 \<noteq> None"
      using positional_chars[OF p, of c1] s Cons by simp
    from hexadecimal_plain(5,6)[OF this] show ?thesis by (simp add: s Cons)
  qed
  then show ?thesis
    using hexadecimal_plain[OF c] v by (simp add: strtoul_def s)
qed

lemma decimal_no_colon: "decimal_value s = Some n \<Longrightarrow> CHR '':'' \<notin> set s"
  using positional_chars[of decimal_digits 10 0 s n "CHR '':''"] decimal_plain(4)
  by (auto simp: decimal_value_def split: if_splits)

lemma hexadecimal_no_colon: "hexadecimal_value s = Some n \<Longrightarrow> CHR '':'' \<notin> set s"
  using positional_chars[of hexadecimal_digits 16 0 s n "CHR '':''"] hexadecimal_plain(4)
  by (auto simp: hexadecimal_value_def split: if_splits)

lemma decimal_nonempty: "decimal_value s = Some n \<Longrightarrow> s \<noteq> []"
  by (auto simp: decimal_value_def split: if_splits)

lemma hexadecimal_nonempty: "hexadecimal_value s = Some n \<Longrightarrow> s \<noteq> []"
  by (auto simp: hexadecimal_value_def split: if_splits)

subsection \<open>The range tests and the casts\<close>

lemma word64_of_small:
  assumes "n < 2 ^ 64"
  shows "(of_nat n :: 64 word) = 0 \<longleftrightarrow> n = 0"
    and "(of_nat n :: 64 word) > G_MAXUINT \<longleftrightarrow> n > 4294967295"
    and "(of_nat n :: 64 word) > G_MAXUINT16 \<longleftrightarrow> n > 65535"
  using assms
  by (simp_all add: word_unat_eq_iff word_less_nat_alt unat_of_nat G_MAXUINT_def
      G_MAXUINT16_def)

lemma ucast_64_32: "n \<le> 4294967295 \<Longrightarrow> (ucast (of_nat n :: 64 word) :: 32 word) = of_nat n"
  by (simp add: word_unat_eq_iff unsigned_ucast_eq unat_of_nat take_bit_eq_mod)

lemma ucast_64_16: "n \<le> 65535 \<Longrightarrow> (ucast (of_nat n :: 64 word) :: 16 word) = of_nat n"
  by (simp add: word_unat_eq_iff unsigned_ucast_eq unat_of_nat take_bit_eq_mod)

lemma ucast_32_16: "n \<le> 65535 \<Longrightarrow> (ucast (of_nat n :: 32 word) :: 16 word) = of_nat n"
  by (simp add: word_unat_eq_iff unsigned_ucast_eq unat_of_nat take_bit_eq_mod)

lemma unat_32: "n \<le> 4294967295 \<Longrightarrow> unat (of_nat n :: 32 word) = n"
  by (simp add: unat_of_nat)

lemma unat_16: "n \<le> 65535 \<Longrightarrow> unat (of_nat n :: 16 word) = n"
  by (simp add: unat_of_nat)

text \<open>What each callback does with a field that denotes a value in range.\<close>

lemma decimal_field_accepted:
  assumes "decimal_value s = Some n" "0 < n" "n \<le> 4294967295"
  shows "strtoul s 10 \<noteq> 0" "\<not> strtoul s 10 > G_MAXUINT"
    "(ucast (strtoul s 10) :: 32 word) = of_nat n"
proof -
  have small: "n < 2 ^ 64" and fits: "\<not> ULONG_MAX < n"
    using assms(3) by (simp_all add: ULONG_MAX_def)
  have eq: "strtoul s 10 = of_nat n"
    using strtoul_decimal[OF assms(1)] fits by simp
  show "strtoul s 10 \<noteq> 0" using word64_of_small(1)[OF small] assms(2) eq by simp
  show "\<not> strtoul s 10 > G_MAXUINT" using word64_of_small(2)[OF small] assms(3) eq by simp
  show "(ucast (strtoul s 10) :: 32 word) = of_nat n" using ucast_64_32[OF assms(3)] eq by simp
qed

lemma hexadecimal_field_accepted:
  assumes "hexadecimal_value s = Some n" "0 < n" "n \<le> 65535"
  shows "strtoul s 16 \<noteq> 0" "\<not> strtoul s 16 > G_MAXUINT16"
    "(ucast (strtoul s 16) :: 16 word) = of_nat n"
    "(ucast (ucast (strtoul s 16) :: 32 word) :: 16 word) = of_nat n"
proof -
  have small: "n < 2 ^ 64" and fits: "\<not> ULONG_MAX < n" and le32: "n \<le> 4294967295"
    using assms(3) by (simp_all add: ULONG_MAX_def)
  have eq: "strtoul s 16 = of_nat n"
    using strtoul_hexadecimal[OF assms(1)] fits by simp
  show "strtoul s 16 \<noteq> 0" using word64_of_small(1)[OF small] assms(2) eq by simp
  show "\<not> strtoul s 16 > G_MAXUINT16" using word64_of_small(3)[OF small] assms(3) eq by simp
  show "(ucast (strtoul s 16) :: 16 word) = of_nat n" using ucast_64_16[OF assms(3)] eq by simp
  show "(ucast (ucast (strtoul s 16) :: 32 word) :: 16 word) = of_nat n"
    using ucast_64_32[OF le32] ucast_32_16[OF assms(3)] eq by simp
qed

lemma hexadecimal_field_rejected:
  assumes "hexadecimal_value s = Some n" "n = 0 \<or> 65535 < n"
  shows "strtoul s 16 = 0 \<or> strtoul s 16 > G_MAXUINT16"
proof (cases "ULONG_MAX < n")
  case True
  then have "strtoul s 16 = of_nat ULONG_MAX"
    using strtoul_hexadecimal[OF assms(1)] by simp
  then show ?thesis
    by (simp add: ULONG_MAX_def G_MAXUINT16_def)
next
  case False
  then have small: "n < 2 ^ 64" by (simp add: ULONG_MAX_def)
  have "strtoul s 16 = of_nat n"
    using strtoul_hexadecimal[OF assms(1)] False by simp
  then show ?thesis
    using word64_of_small(1,3)[OF small] assms(2) by auto
qed

text \<open>The concrete strings of the specification, evaluated.\<close>

lemmas evaluate_callback =
  parse_busnum_devnum_def parse_vid_pid_def g_strsplit_def strtoul_def isspace_def
  digit_value_def ULONG_MAX_def G_MAXUINT_def G_MAXUINT16_def

subsection \<open>Facts about selection and dispatch used below\<close>

lemma select_path_no_operation: "filter is_operation (snd (select_path c g manual type)) = []"
  by (simp add: select_path_def split: option.splits sum.splits list.splits)

lemma n_actions_one:
  "n_actions g = 1 \<longleftrightarrow>
     (action_verify_flag g \<and> \<not> action_update_flag g \<and> \<not> action_update_qdl_flag g)
     \<or> (\<not> action_verify_flag g \<and> action_update_flag g \<and> \<not> action_update_qdl_flag g)
     \<or> (\<not> action_verify_flag g \<and> \<not> action_update_flag g \<and> action_update_qdl_flag g)"
  by (cases "action_verify_flag g"; cases "action_update_flag g";
      cases "action_update_qdl_flag g") (simp_all add: n_actions_def)

lemma main_verify:
  assumes "\<not> version_flag g" "\<not> help_flag g" "action_verify_flag g"
    "\<not> action_update_flag g" "\<not> action_update_qdl_flag g" "image_strv g = Some images"
  shows "main c None g =
    (exit_of (qfu_operation_verify_run c images), log_setup g @ [Verify_run images])"
  using assms by (simp add: main_def n_actions_def)

lemma filter_log_setup:
  "filter is_operation (log_setup g) = []" "filter is_enumeration (log_setup g) = []"
  "filter is_printerr (log_setup g) = []"
  by (simp_all add: log_setup_def)

text \<open>
  The last branch of the dispatch, \<^verbatim>\<open>g_assert_not_reached\<close>, is indeed never
  reached: a run always ends with an exit status.
\<close>

lemma main_never_aborts: "fst (main c parse_error g) \<noteq> Aborted"
  by (cases "action_verify_flag g"; cases "action_update_flag g";
      cases "action_update_qdl_flag g")
    (simp_all add: main_def Let_def exit_of_def n_actions_def
      split: option.splits prod.splits)

subsection \<open>What an error return leaves behind\<close>




subsection \<open>The bus and device number grammar\<close>

text \<open>
  Claim C3. Starting from option variables whose identifiers are unset, a single
  decimal field \<open>DEV\<close> with a value from 1 to the largest 32-bit unsigned integer
  sets \<open>devnum\<close> to that value and leaves \<open>busnum\<close> unset; two such fields
  \<open>BUS:DEV\<close> set both; and each of the strings \<open>0:5\<close>, \<open>5:0\<close>, \<open>1:2:3\<close> and
  \<open>99999999999:1\<close> makes the callback return an error.
\<close>

theorem parse_busnum_devnum_grammar:
  assumes "identifiers_unset g"
  shows
    "(decimal_value dev = Some n \<and> 0 < n \<and> n \<le> 4294967295 \<longrightarrow>
        parse_busnum_devnum dev g = Parse_ok (g\<lparr>devnum := of_nat n\<rparr>)
        \<and> unat (devnum (g\<lparr>devnum := of_nat n\<rparr>)) = n
        \<and> busnum (g\<lparr>devnum := of_nat n\<rparr>) = 0)
     \<and> (decimal_value bus = Some m \<and> 0 < m \<and> m \<le> 4294967295
        \<and> decimal_value dev = Some n \<and> 0 < n \<and> n \<le> 4294967295 \<longrightarrow>
        parse_busnum_devnum (bus @ '':'' @ dev) g
          = Parse_ok (g\<lparr>busnum := of_nat m, devnum := of_nat n\<rparr>)
        \<and> unat (busnum (g\<lparr>busnum := of_nat m, devnum := of_nat n\<rparr>)) = m
        \<and> unat (devnum (g\<lparr>busnum := of_nat m, devnum := of_nat n\<rparr>)) = n)
     \<and> parse_busnum_devnum ''0:5'' g = Parse_error ''invalid bus number: 0'' g
     \<and> parse_busnum_devnum ''5:0'' g = Parse_error ''invalid dev number: 0'' (g\<lparr>busnum := 5\<rparr>)
     \<and> parse_busnum_devnum ''1:2:3'' g
         = Parse_error ''invalid busnum-devnum string: too many fields'' g
     \<and> parse_busnum_devnum ''99999999999:1'' g
         = Parse_error ''invalid bus number: 99999999999'' g"
proof -
  have one: "parse_busnum_devnum dev g = Parse_ok (g\<lparr>devnum := of_nat n\<rparr>)
      \<and> unat (devnum (g\<lparr>devnum := of_nat n\<rparr>)) = n
      \<and> busnum (g\<lparr>devnum := of_nat n\<rparr>) = 0"
    if d: "decimal_value dev = Some n" "0 < n" "n \<le> 4294967295"
  proof -
    have "g_strsplit dev CHR '':'' = [dev]"
      using g_strsplit_one decimal_nonempty[OF d(1)] decimal_no_colon[OF d(1)] by simp
    then have "parse_busnum_devnum dev g = Parse_ok (g\<lparr>devnum := of_nat n\<rparr>)"
      using decimal_field_accepted[OF d] by (simp add: parse_busnum_devnum_def)
    then show ?thesis
      using assms unat_32[OF d(3)] by (simp add: identifiers_unset_def)
  qed
  have two: "parse_busnum_devnum (bus @ '':'' @ dev) g
        = Parse_ok (g\<lparr>busnum := of_nat m, devnum := of_nat n\<rparr>)
      \<and> unat (busnum (g\<lparr>busnum := of_nat m, devnum := of_nat n\<rparr>)) = m
      \<and> unat (devnum (g\<lparr>busnum := of_nat m, devnum := of_nat n\<rparr>)) = n"
    if b: "decimal_value bus = Some m" "0 < m" "m \<le> 4294967295"
      and d: "decimal_value dev = Some n" "0 < n" "n \<le> 4294967295"
  proof -
    have "g_strsplit (bus @ '':'' @ dev) CHR '':'' = [bus, dev]"
      using g_strsplit_two[OF decimal_no_colon[OF b(1)] decimal_no_colon[OF d(1)]] by simp
    then have "parse_busnum_devnum (bus @ '':'' @ dev) g
        = Parse_ok (g\<lparr>busnum := of_nat m, devnum := of_nat n\<rparr>)"
      using decimal_field_accepted[OF b] decimal_field_accepted[OF d]
      by (simp add: parse_busnum_devnum_def)
    then show ?thesis
      using unat_32[OF b(3)] unat_32[OF d(3)] by simp
  qed
  have e1: "parse_busnum_devnum ''0:5'' g = Parse_error ''invalid bus number: 0'' g"
    by (simp add: evaluate_callback)
  have e2: "parse_busnum_devnum ''5:0'' g
      = Parse_error ''invalid dev number: 0'' (g\<lparr>busnum := 5\<rparr>)"
    by (simp add: evaluate_callback)
  have e3: "parse_busnum_devnum ''1:2:3'' g
      = Parse_error ''invalid busnum-devnum string: too many fields'' g"
    by (simp add: evaluate_callback)
  have e4: "parse_busnum_devnum ''99999999999:1'' g
      = Parse_error ''invalid bus number: 99999999999'' g"
    by (simp add: evaluate_callback)
  from one two e1 e2 e3 e4 show ?thesis by blast
qed

theorem parse_busnum_devnum_grammar_witness:
  "identifiers_unset initial_globals
   \<and> parse_busnum_devnum ''42'' initial_globals = Parse_ok (initial_globals\<lparr>devnum := 42\<rparr>)
   \<and> parse_busnum_devnum ''1:2'' initial_globals
       = Parse_ok (initial_globals\<lparr>busnum := 1, devnum := 2\<rparr>)
   \<and> parse_busnum_devnum ''5:0'' initial_globals
       = Parse_error ''invalid dev number: 0'' (initial_globals\<lparr>busnum := 5\<rparr>)"
proof -
  have u: "identifiers_unset initial_globals"
    by (simp add: identifiers_unset_def initial_globals_def)
  have d42: "decimal_value ''42'' = Some 42" and d1: "decimal_value ''1'' = Some 1"
    and d2: "decimal_value ''2'' = Some 2"
    by (simp_all add: decimal_value_def decimal_digits_def)
  from parse_busnum_devnum_grammar[OF u, of "''42''" 42 "''1''" 1]
    parse_busnum_devnum_grammar[OF u, of "''2''" 2 "''1''" 1] u d42 d1 d2
  show ?thesis by simp
qed

subsection \<open>The vendor and product id grammar\<close>

text \<open>
  Claim C4. Starting from option variables whose identifiers are unset, the fields
  of a vid-pid string are read in base 16 and field 0 is the vendor id: a single
  hexadecimal field \<open>VID\<close> with a value from 1 to \<open>0xFFFF\<close> sets \<open>vid\<close> to
  that value and leaves \<open>pid\<close> unset; two such fields \<open>VID:PID\<close> set both.
  Three or more fields are an error, and so is any field whose parsed value is 0 or
  exceeds 16 bits; in particular \<open>0:ABCD\<close>, \<open>ABCD:0\<close>, \<open>1:2:3\<close> and \<open>FFFFF\<close>
  are each rejected.
\<close>

theorem parse_vid_pid_grammar:
  assumes "identifiers_unset g"
  shows
    "(hexadecimal_value v = Some n \<and> 0 < n \<and> n \<le> 65535 \<longrightarrow>
        parse_vid_pid v g = Parse_ok (g\<lparr>vid := of_nat n\<rparr>)
        \<and> unat (vid (g\<lparr>vid := of_nat n\<rparr>)) = n
        \<and> pid (g\<lparr>vid := of_nat n\<rparr>) = 0)
     \<and> (hexadecimal_value v = Some n \<and> 0 < n \<and> n \<le> 65535
        \<and> hexadecimal_value p = Some m \<and> 0 < m \<and> m \<le> 65535 \<longrightarrow>
        parse_vid_pid (v @ '':'' @ p) g = Parse_ok (g\<lparr>pid := of_nat m, vid := of_nat n\<rparr>)
        \<and> unat (vid (g\<lparr>pid := of_nat m, vid := of_nat n\<rparr>)) = n
        \<and> unat (pid (g\<lparr>pid := of_nat m, vid := of_nat n\<rparr>)) = m)
     \<and> (3 \<le> length (g_strsplit val CHR '':'') \<longrightarrow>
        parse_vid_pid val g = Parse_error ''invalid vid-pid string: too many fields'' g)
     \<and> (length (g_strsplit val CHR '':'') \<in> {1, 2} \<and> f \<in> set (g_strsplit val CHR '':'')
        \<and> (strtoul f 16 = 0 \<or> strtoul f 16 > G_MAXUINT16
            \<or> hexadecimal_value f = Some k \<and> (k = 0 \<or> 65535 < k)) \<longrightarrow>
        is_parse_error (parse_vid_pid val g))
     \<and> parse_vid_pid ''0:ABCD'' g = Parse_error ''invalid vendor id: 0'' (g\<lparr>pid := 0xABCD\<rparr>)
     \<and> parse_vid_pid ''ABCD:0'' g = Parse_error ''invalid product id: 0'' g
     \<and> parse_vid_pid ''1:2:3'' g = Parse_error ''invalid vid-pid string: too many fields'' g
     \<and> parse_vid_pid ''FFFFF'' g = Parse_error ''invalid vendor id: FFFFF'' g"
proof -
  have one: "parse_vid_pid v g = Parse_ok (g\<lparr>vid := of_nat n\<rparr>)
      \<and> unat (vid (g\<lparr>vid := of_nat n\<rparr>)) = n
      \<and> pid (g\<lparr>vid := of_nat n\<rparr>) = 0"
    if h: "hexadecimal_value v = Some n" "0 < n" "n \<le> 65535"
  proof -
    have "g_strsplit v CHR '':'' = [v]"
      using g_strsplit_one hexadecimal_nonempty[OF h(1)] hexadecimal_no_colon[OF h(1)]
      by simp
    then have "parse_vid_pid v g = Parse_ok (g\<lparr>vid := of_nat n\<rparr>)"
      using hexadecimal_field_accepted[OF h] by (simp add: parse_vid_pid_def)
    then show ?thesis
      using assms unat_16[OF h(3)] by (simp add: identifiers_unset_def)
  qed
  have two: "parse_vid_pid (v @ '':'' @ p) g = Parse_ok (g\<lparr>pid := of_nat m, vid := of_nat n\<rparr>)
      \<and> unat (vid (g\<lparr>pid := of_nat m, vid := of_nat n\<rparr>)) = n
      \<and> unat (pid (g\<lparr>pid := of_nat m, vid := of_nat n\<rparr>)) = m"
    if h: "hexadecimal_value v = Some n" "0 < n" "n \<le> 65535"
      and q: "hexadecimal_value p = Some m" "0 < m" "m \<le> 65535"
  proof -
    have "g_strsplit (v @ '':'' @ p) CHR '':'' = [v, p]"
      using g_strsplit_two[OF hexadecimal_no_colon[OF h(1)] hexadecimal_no_colon[OF q(1)]]
      by simp
    then have "parse_vid_pid (v @ '':'' @ p) g
        = Parse_ok (g\<lparr>pid := of_nat m, vid := of_nat n\<rparr>)"
      using hexadecimal_field_accepted[OF h] hexadecimal_field_accepted[OF q]
      by (simp add: parse_vid_pid_def)
    then show ?thesis
      using unat_16[OF h(3)] unat_16[OF q(3)] by simp
  qed
  have many: "parse_vid_pid val g = Parse_error ''invalid vid-pid string: too many fields'' g"
    if "3 \<le> length (g_strsplit val CHR '':'')"
  proof -
    from that obtain a b c rest where "g_strsplit val CHR '':'' = a # b # c # rest"
      by (cases "g_strsplit val CHR '':''" rule: list.exhaust;
          simp; rename_tac a as; case_tac as; simp; rename_tac b bs; case_tac bs; simp)
    then show ?thesis by (simp add: parse_vid_pid_def)
  qed
  have bad: "is_parse_error (parse_vid_pid val g)"
    if len: "length (g_strsplit val CHR '':'') \<in> {1, 2}"
      and f: "f \<in> set (g_strsplit val CHR '':'')"
      and r: "strtoul f 16 = 0 \<or> strtoul f 16 > G_MAXUINT16
              \<or> hexadecimal_value f = Some k \<and> (k = 0 \<or> 65535 < k)"
  proof -
    from r have rej: "strtoul f 16 = 0 \<or> strtoul f 16 > G_MAXUINT16"
      using hexadecimal_field_rejected[of f k] by blast
    from len consider a where "g_strsplit val CHR '':'' = [a]"
      | a b where "g_strsplit val CHR '':'' = [a, b]"
      by (cases "g_strsplit val CHR '':''" rule: list.exhaust;
          simp; rename_tac a as; case_tac as; simp)
    then show ?thesis
    proof cases
      case 1
      with f rej show ?thesis by (auto simp: parse_vid_pid_def Let_def)
    next
      case 2
      with f rej show ?thesis by (auto simp: parse_vid_pid_def Let_def)
    qed
  qed
  have e1: "parse_vid_pid ''0:ABCD'' g
      = Parse_error ''invalid vendor id: 0'' (g\<lparr>pid := 0xABCD\<rparr>)"
    by (simp add: evaluate_callback)
  have e2: "parse_vid_pid ''ABCD:0'' g = Parse_error ''invalid product id: 0'' g"
    by (simp add: evaluate_callback)
  have e3: "parse_vid_pid ''1:2:3'' g
      = Parse_error ''invalid vid-pid string: too many fields'' g"
    by (simp add: evaluate_callback)
  have e4: "parse_vid_pid ''FFFFF'' g = Parse_error ''invalid vendor id: FFFFF'' g"
    by (simp add: evaluate_callback)
  from one two many bad e1 e2 e3 e4 show ?thesis by blast
qed

theorem parse_vid_pid_grammar_witness:
  "identifiers_unset initial_globals
   \<and> parse_vid_pid ''1199'' initial_globals = Parse_ok (initial_globals\<lparr>vid := 0x1199\<rparr>)
   \<and> parse_vid_pid ''1199:9071'' initial_globals
       = Parse_ok (initial_globals\<lparr>pid := 0x9071, vid := 0x1199\<rparr>)
   \<and> parse_vid_pid ''a:b:c'' initial_globals
       = Parse_error ''invalid vid-pid string: too many fields'' initial_globals
   \<and> is_parse_error (parse_vid_pid ''1199:10000'' initial_globals)"
proof -
  have u: "identifiers_unset initial_globals"
    by (simp add: identifiers_unset_def initial_globals_def)
  have h: "hexadecimal_value ''1199'' = Some 4505" "hexadecimal_value ''9071'' = Some 36977"
    "hexadecimal_value ''10000'' = Some 65536"
    by (simp_all add: hexadecimal_value_def hexadecimal_digits_def decimal_digits_def)
  have s: "g_strsplit ''a:b:c'' CHR '':'' = [''a'', ''b'', ''c'']"
    "g_strsplit ''1199:10000'' CHR '':'' = [''1199'', ''10000'']"
    by (simp_all add: g_strsplit_def)
  from parse_vid_pid_grammar[OF u, of "''1199''" 4505 "''9071''" 36977 "''a:b:c''" "''a''" 0]
    parse_vid_pid_grammar[OF u, of "''1199''" 4505 "''9071''" 36977 "''1199:10000''"
      "''10000''" 65536] u h s
  show ?thesis by simp
qed

subsection \<open>Device selection\<close>

text \<open>
  The three exclusivity checks of \<open>select_path\<close>, in the order of the source. They
  are about the path \<open>select_path\<close> is given as \<open>manual\<close>.
\<close>

lemma select_path_conflicts:
  "(manual \<noteq> None \<and> (vid g \<noteq> 0 \<or> pid g \<noteq> 0) \<longrightarrow>
      select_path c g manual type =
        (None, [G_printerr ''error: cannot specify device path and vid:pid lookup\<newline>'']))
   \<and> (manual \<noteq> None \<and> vid g = 0 \<and> pid g = 0 \<and> (busnum g \<noteq> 0 \<or> devnum g \<noteq> 0) \<longrightarrow>
      select_path c g manual type =
        (None,
         [G_printerr ''error: cannot specify device path and busnum:devnum lookup\<newline>'']))
   \<and> (manual = None \<and> (vid g \<noteq> 0 \<or> pid g \<noteq> 0) \<and> (busnum g \<noteq> 0 \<or> devnum g \<noteq> 0) \<longrightarrow>
      select_path c g manual type =
        (None, [G_printerr ''error: cannot specify busnum:devnum and vid:pid lookups\<newline>'']))"
  by (auto simp: select_path_def)

lemma main_resolution_failed:
  assumes "\<not> version_flag g" "\<not> help_flag g" "image_strv g = Some images"
  shows "action_update_flag g \<Longrightarrow> \<not> action_update_qdl_flag g \<Longrightarrow> \<not> action_verify_flag g \<Longrightarrow>
      select_path c g (device_str g) QFU_UDEV_HELPER_DEVICE_TYPE_CDC_WDM = (None, evs) \<Longrightarrow>
      main c None g = (EXIT_FAILURE, log_setup g @ evs)"
    and "action_update_qdl_flag g \<Longrightarrow> \<not> action_update_flag g \<Longrightarrow> \<not> action_verify_flag g \<Longrightarrow>
      select_path c g (serial_str g) QFU_UDEV_HELPER_DEVICE_TYPE_TTY = (None, evs) \<Longrightarrow>
      main c None g = (EXIT_FAILURE, log_setup g @ evs)"
  using assms by (simp_all add: main_def n_actions_def)

text \<open>
  Claim C2 says that every run in which a manual device path and a vid:pid lookup
  are both supplied fails with the conflict error and never reaches the enumeration
  helper. The path that \<open>select_path\<close> checks is the one of the action that runs:
  \<^verbatim>\<open>--device\<close> for an Update run, \<^verbatim>\<open>--serial\<close> for an UpdateQdl run. A
  manual path given for the other action is not looked at: the QDL run with
  \<^verbatim>\<open>--device\<close> and \<^verbatim>\<open>--vid-pid 1199\<close>, and the Update run with
  \<^verbatim>\<open>--serial\<close> and \<^verbatim>\<open>--vid-pid 1199\<close>, print no error, call the enumeration
  helpers and go on to the operation.
\<close>

theorem manual_path_of_other_action_unchecked:
  "device_str qdl_with_device_and_vid_pid = Some ''/dev/cdc-wdm0''
   \<and> vid qdl_with_device_and_vid_pid = 0x1199
   \<and> main serial_node_collaborators None qdl_with_device_and_vid_pid =
       (EXIT_SUCCESS,
        [Find_by_device_info 0x1199 0 0 0,
         List_devices QFU_UDEV_HELPER_DEVICE_TYPE_TTY ''/sys/bus/usb/devices/1-2'',
         G_debug ''using tty device: /dev/ttyUSB0'',
         Update_qdl_run [''fw.cwe''] ''/dev/ttyUSB0''])
   \<and> serial_str update_with_serial_and_vid_pid = Some ''/dev/ttyUSB0''
   \<and> vid update_with_serial_and_vid_pid = 0x1199
   \<and> main example_collaborators None update_with_serial_and_vid_pid =
       (EXIT_SUCCESS,
        [Find_by_device_info 0x1199 0 0 0,
         List_devices QFU_UDEV_HELPER_DEVICE_TYPE_CDC_WDM ''/sys/bus/usb/devices/1-2'',
         G_debug ''using cdc-wdm device: /dev/cdc-wdm0'',
         Update_run [''fw.cwe''] ''/dev/cdc-wdm0'' None None None False False])"
  by (simp add: main_def select_path_def n_actions_def log_setup_def exit_of_def
      qdl_with_device_and_vid_pid_def update_with_serial_and_vid_pid_def
      serial_node_collaborators_def example_collaborators_def initial_globals_def)

text \<open>
  Claim C2, amended. The three exclusivity checks of device selection are made in a
  fixed order: manual path against vid:pid, manual path against busnum:devnum,
  vid:pid against busnum:devnum; the first check that is violated decides the
  outcome: selection fails, the one line printed is that check's message, whatever
  the later checks would have said, and no enumeration helper is called. The manual
  path of these checks is the one of the action that runs. In particular, for every
  run that reaches device resolution (options parsed, neither version nor help
  requested, images given, and Update or UpdateQdl as the one action) in which the
  manual path of that action (\<^verbatim>\<open>--device\<close> for Update, \<^verbatim>\<open>--serial\<close> for
  UpdateQdl) and a vid:pid lookup are both supplied, the run fails with the
  manual-against-vid:pid error, and neither an enumeration helper nor an operation
  is called.
\<close>

theorem selection_conflict_order:
  "(manual \<noteq> None \<and> (vid g \<noteq> 0 \<or> pid g \<noteq> 0) \<longrightarrow>
      select_path c g manual type =
        (None, [G_printerr ''error: cannot specify device path and vid:pid lookup\<newline>'']))
   \<and> (manual \<noteq> None \<and> vid g = 0 \<and> pid g = 0 \<and> (busnum g \<noteq> 0 \<or> devnum g \<noteq> 0) \<longrightarrow>
      select_path c g manual type =
        (None,
         [G_printerr ''error: cannot specify device path and busnum:devnum lookup\<newline>'']))
   \<and> (manual = None \<and> (vid g \<noteq> 0 \<or> pid g \<noteq> 0) \<and> (busnum g \<noteq> 0 \<or> devnum g \<noteq> 0) \<longrightarrow>
      select_path c g manual type =
        (None, [G_printerr ''error: cannot specify busnum:devnum and vid:pid lookups\<newline>'']))
   \<and> ((manual \<noteq> None \<and> (vid g \<noteq> 0 \<or> pid g \<noteq> 0 \<or> busnum g \<noteq> 0 \<or> devnum g \<noteq> 0))
       \<or> ((vid g \<noteq> 0 \<or> pid g \<noteq> 0) \<and> (busnum g \<noteq> 0 \<or> devnum g \<noteq> 0)) \<longrightarrow>
      fst (select_path c g manual type) = None
      \<and> filter is_enumeration (snd (select_path c g manual type)) = [])
   \<and> (\<not> version_flag g \<and> \<not> help_flag g \<and> image_strv g = Some images
      \<and> action_update_flag g \<and> \<not> action_update_qdl_flag g \<and> \<not> action_verify_flag g \<longrightarrow>
        (device_str g \<noteq> None \<and> (vid g \<noteq> 0 \<or> pid g \<noteq> 0) \<longrightarrow>
           main c None g =
             (EXIT_FAILURE,
              log_setup g
              @ [G_printerr ''error: cannot specify device path and vid:pid lookup\<newline>'']))
        \<and> (device_str g \<noteq> None \<and> vid g = 0 \<and> pid g = 0
           \<and> (busnum g \<noteq> 0 \<or> devnum g \<noteq> 0) \<longrightarrow>
           main c None g =
             (EXIT_FAILURE,
              log_setup g
              @ [G_printerr
                   ''error: cannot specify device path and busnum:devnum lookup\<newline>'']))
        \<and> (device_str g = None \<and> (vid g \<noteq> 0 \<or> pid g \<noteq> 0)
           \<and> (busnum g \<noteq> 0 \<or> devnum g \<noteq> 0) \<longrightarrow>
           main c None g =
             (EXIT_FAILURE,
              log_setup g
              @ [G_printerr ''error: cannot specify busnum:devnum and vid:pid lookups\<newline>'']))
        \<and> ((device_str g \<noteq> None
              \<and> (vid g \<noteq> 0 \<or> pid g \<noteq> 0 \<or> busnum g \<noteq> 0 \<or> devnum g \<noteq> 0))
            \<or> ((vid g \<noteq> 0 \<or> pid g \<noteq> 0) \<and> (busnum g \<noteq> 0 \<or> devnum g \<noteq> 0)) \<longrightarrow>
           filter is_enumeration (snd (main c None g)) = []
           \<and> filter is_operation (snd (main c None g)) = []))
   \<and> (\<not> version_flag g \<and> \<not> help_flag g \<and> image_strv g = Some images
      \<and> action_update_qdl_flag g \<and> \<not> action_update_flag g \<and> \<not> action_verify_flag g \<longrightarrow>
        (serial_str g \<noteq> None \<and> (vid g \<noteq> 0 \<or> pid g \<noteq> 0) \<longrightarrow>
           main c None g =
             (EXIT_FAILURE,
              log_setup g
              @ [G_printerr ''error: cannot specify device path and vid:pid lookup\<newline>'']))
        \<and> (serial_str g \<noteq> None \<and> vid g = 0 \<and> pid g = 0
           \<and> (busnum g \<noteq> 0 \<or> devnum g \<noteq> 0) \<longrightarrow>
           main c None g =
             (EXIT_FAILURE,
              log_setup g
              @ [G_printerr
                   ''error: cannot specify device path and busnum:devnum lookup\<newline>'']))
        \<and> (serial_str g = None \<and> (vid g \<noteq> 0 \<or> pid g \<noteq> 0)
           \<and> (busnum g \<noteq> 0 \<or> devnum g \<noteq> 0) \<longrightarrow>
           main c None g =
             (EXIT_FAILURE,
              log_setup g
              @ [G_printerr ''error: cannot specify busnum:devnum and vid:pid lookups\<newline>'']))
        \<and> ((serial_str g \<noteq> None
              \<and> (vid g \<noteq> 0 \<or> pid g \<noteq> 0 \<or> busnum g \<noteq> 0 \<or> devnum g \<noteq> 0))
            \<or> ((vid g \<noteq> 0 \<or> pid g \<noteq> 0) \<and> (busnum g \<noteq> 0 \<or> devnum g \<noteq> 0)) \<longrightarrow>
           filter is_enumeration (snd (main c None g)) = []
           \<and> filter is_operation (snd (main c None g)) = []))"
proof -
  note sel = select_path_conflicts[of manual g c type]
  have quiet: "fst (select_path c g m t) = None
      \<and> filter is_enumeration (snd (select_path c g m t)) = []"
    if "(m \<noteq> None \<and> (vid g \<noteq> 0 \<or> pid g \<noteq> 0 \<or> busnum g \<noteq> 0 \<or> devnum g \<noteq> 0))
       \<or> ((vid g \<noteq> 0 \<or> pid g \<noteq> 0) \<and> (busnum g \<noteq> 0 \<or> devnum g \<noteq> 0))" for m t
    using that by (auto simp: select_path_def)
  have run: "(m \<noteq> None \<and> (vid g \<noteq> 0 \<or> pid g \<noteq> 0) \<longrightarrow>
           main c None g =
             (EXIT_FAILURE,
              log_setup g
              @ [G_printerr ''error: cannot specify device path and vid:pid lookup\<newline>'']))
        \<and> (m \<noteq> None \<and> vid g = 0 \<and> pid g = 0 \<and> (busnum g \<noteq> 0 \<or> devnum g \<noteq> 0) \<longrightarrow>
           main c None g =
             (EXIT_FAILURE,
              log_setup g
              @ [G_printerr
                   ''error: cannot specify device path and busnum:devnum lookup\<newline>'']))
        \<and> (m = None \<and> (vid g \<noteq> 0 \<or> pid g \<noteq> 0) \<and> (busnum g \<noteq> 0 \<or> devnum g \<noteq> 0) \<longrightarrow>
           main c None g =
             (EXIT_FAILURE,
              log_setup g
              @ [G_printerr ''error: cannot specify busnum:devnum and vid:pid lookups\<newline>'']))
        \<and> ((m \<noteq> None \<and> (vid g \<noteq> 0 \<or> pid g \<noteq> 0 \<or> busnum g \<noteq> 0 \<or> devnum g \<noteq> 0))
            \<or> ((vid g \<noteq> 0 \<or> pid g \<noteq> 0) \<and> (busnum g \<noteq> 0 \<or> devnum g \<noteq> 0)) \<longrightarrow>
           filter is_enumeration (snd (main c None g)) = []
           \<and> filter is_operation (snd (main c None g)) = [])"
    if fail: "\<And>evs. select_path c g m t = (None, evs) \<Longrightarrow>
        main c None g = (EXIT_FAILURE, log_setup g @ evs)" for m t
  proof -
    have a: "main c None g = (EXIT_FAILURE, log_setup g @ evs)"
      if "select_path c g m t = (None, evs)" for evs
      using fail that by blast
    have b: "filter is_enumeration (snd (main c None g)) = []
        \<and> filter is_operation (snd (main c None g)) = []"
      if q: "(m \<noteq> None \<and> (vid g \<noteq> 0 \<or> pid g \<noteq> 0 \<or> busnum g \<noteq> 0 \<or> devnum g \<noteq> 0))
         \<or> ((vid g \<noteq> 0 \<or> pid g \<noteq> 0) \<and> (busnum g \<noteq> 0 \<or> devnum g \<noteq> 0))"
    proof -
      obtain evs where s: "select_path c g m t = (None, evs)"
        using quiet[OF q, of t] by (cases "select_path c g m t") simp
      have "filter is_enumeration evs = []" "filter is_operation evs = []"
        using quiet[OF q, of t] select_path_no_operation[of c g m t] s by simp_all
      then show ?thesis
        using a[OF s] by (simp add: filter_log_setup)
    qed
    from a b select_path_conflicts[of m g c t] show ?thesis by metis
  qed
  have upd: "\<not> version_flag g \<and> \<not> help_flag g \<and> image_strv g = Some images
      \<and> action_update_flag g \<and> \<not> action_update_qdl_flag g \<and> \<not> action_verify_flag g \<longrightarrow>
        (device_str g \<noteq> None \<and> (vid g \<noteq> 0 \<or> pid g \<noteq> 0) \<longrightarrow>
           main c None g =
             (EXIT_FAILURE,
              log_setup g
              @ [G_printerr ''error: cannot specify device path and vid:pid lookup\<newline>'']))
        \<and> (device_str g \<noteq> None \<and> vid g = 0 \<and> pid g = 0
           \<and> (busnum g \<noteq> 0 \<or> devnum g \<noteq> 0) \<longrightarrow>
           main c None g =
             (EXIT_FAILURE,
              log_setup g
              @ [G_printerr
                   ''error: cannot specify device path and busnum:devnum lookup\<newline>'']))
        \<and> (device_str g = None \<and> (vid g \<noteq> 0 \<or> pid g \<noteq> 0)
           \<and> (busnum g \<noteq> 0 \<or> devnum g \<noteq> 0) \<longrightarrow>
           main c None g =
             (EXIT_FAILURE,
              log_setup g
              @ [G_printerr ''error: cannot specify busnum:devnum and vid:pid lookups\<newline>'']))
        \<and> ((device_str g \<noteq> None
              \<and> (vid g \<noteq> 0 \<or> pid g \<noteq> 0 \<or> busnum g \<noteq> 0 \<or> devnum g \<noteq> 0))
            \<or> ((vid g \<noteq> 0 \<or> pid g \<noteq> 0) \<and> (busnum g \<noteq> 0 \<or> devnum g \<noteq> 0)) \<longrightarrow>
           filter is_enumeration (snd (main c None g)) = []
           \<and> filter is_operation (snd (main c None g)) = [])"
  proof
    assume r: "\<not> version_flag g \<and> \<not> help_flag g \<and> image_strv g = Some images
      \<and> action_update_flag g \<and> \<not> action_update_qdl_flag g \<and> \<not> action_verify_flag g"
    have "main c None g = (EXIT_FAILURE, log_setup g @ evs)"
      if "select_path c g (device_str g) QFU_UDEV_HELPER_DEVICE_TYPE_CDC_WDM = (None, evs)"
      for evs
      using r that main_resolution_failed(1)[of g images c evs] by blast
    then show "(device_str g \<noteq> None \<and> (vid g \<noteq> 0 \<or> pid g \<noteq> 0) \<longrightarrow>
           main c None g =
             (EXIT_FAILURE,
              log_setup g
              @ [G_printerr ''error: cannot specify device path and vid:pid lookup\<newline>'']))
        \<and> (device_str g \<noteq> None \<and> vid g = 0 \<and> pid g = 0
           \<and> (busnum g \<noteq> 0 \<or> devnum g \<noteq> 0) \<longrightarrow>
           main c None g =
             (EXIT_FAILURE,
              log_setup g
              @ [G_printerr
                   ''error: cannot specify device path and busnum:devnum lookup\<newline>'']))
        \<and> (device_str g = None \<and> (vid g \<noteq> 0 \<or> pid g \<noteq> 0)
           \<and> (busnum g \<noteq> 0 \<or> devnum g \<noteq> 0) \<longrightarrow>
           main c None g =
             (EXIT_FAILURE,
              log_setup g
              @ [G_printerr ''error: cannot specify busnum:devnum and vid:pid lookups\<newline>'']))
        \<and> ((device_str g \<noteq> None
              \<and> (vid g \<noteq> 0 \<or> pid g \<noteq> 0 \<or> busnum g \<noteq> 0 \<or> devnum g \<noteq> 0))
            \<or> ((vid g \<noteq> 0 \<or> pid g \<noteq> 0) \<and> (busnum g \<noteq> 0 \<or> devnum g \<noteq> 0)) \<longrightarrow>
           filter is_enumeration (snd (main c None g)) = []
           \<and> filter is_operation (snd (main c None g)) = [])"
      by (rule run)
  qed
  have qdl: "\<not> version_flag g \<and> \<not> help_flag g \<and> image_strv g = Some images
      \<and> action_update_qdl_flag g \<and> \<not> action_update_flag g \<and> \<not> action_verify_flag g \<longrightarrow>
        (serial_str g \<noteq> None \<and> (vid g \<noteq> 0 \<or> pid g \<noteq> 0) \<longrightarrow>
           main c None g =
             (EXIT_FAILURE,
              log_setup g
              @ [G_printerr ''error: cannot specify device path and vid:pid lookup\<newline>'']))
        \<and> (serial_str g \<noteq> None \<and> vid g = 0 \<and> pid g = 0
           \<and> (busnum g \<noteq> 0 \<or> devnum g \<noteq> 0) \<longrightarrow>
           main c None g =
             (EXIT_FAILURE,
              log_setup g
              @ [G_printerr
                   ''error: cannot specify device path and busnum:devnum lookup\<newline>'']))
        \<and> (serial_str g = None \<and> (vid g \<noteq> 0 \<or> pid g \<noteq> 0)
           \<and> (busnum g \<noteq> 0 \<or> devnum g \<noteq> 0) \<longrightarrow>
           main c None g =
             (EXIT_FAILURE,
              log_setup g
              @ [G_printerr ''error: cannot specify busnum:devnum and vid:pid lookups\<newline>'']))
        \<and> ((serial_str g \<noteq> None
              \<and> (vid g \<noteq> 0 \<or> pid g \<noteq> 0 \<or> busnum g \<noteq> 0 \<or> devnum g \<noteq> 0))
            \<or> ((vid g \<noteq> 0 \<or> pid g \<noteq> 0) \<and> (busnum g \<noteq> 0 \<or> devnum g \<noteq> 0)) \<longrightarrow>
           filter is_enumeration (snd (main c None g)) = []
           \<and> filter is_operation (snd (main c None g)) = [])"
  proof
    assume r: "\<not> version_flag g \<and> \<not> help_flag g \<and> image_strv g = Some images
      \<and> action_update_qdl_flag g \<and> \<not> action_update_flag g \<and> \<not> action_verify_flag g"
    have "main c None g = (EXIT_FAILURE, log_setup g @ evs)"
      if "select_path c g (serial_str g) QFU_UDEV_HELPER_DEVICE_TYPE_TTY = (None, evs)"
      for evs
      using r that main_resolution_failed(2)[of g images c evs] by blast
    then show "(serial_str g \<noteq> None \<and> (vid g \<noteq> 0 \<or> pid g \<noteq> 0) \<longrightarrow>
           main c None g =
             (EXIT_FAILURE,
              log_setup g
              @ [G_printerr ''error: cannot specify device path and vid:pid lookup\<newline>'']))
        \<and> (serial_str g \<noteq> None \<and> vid g = 0 \<and> pid g = 0
           \<and> (busnum g \<noteq> 0 \<or> devnum g \<noteq> 0) \<longrightarrow>
           main c None g =
             (EXIT_FAILURE,
              log_setup g
              @ [G_printerr
                   ''error: cannot specify device path and busnum:devnum lookup\<newline>'']))
        \<and> (serial_str g = None \<and> (vid g \<noteq> 0 \<or> pid g \<noteq> 0)
           \<and> (busnum g \<noteq> 0 \<or> devnum g \<noteq> 0) \<longrightarrow>
           main c None g =
             (EXIT_FAILURE,
              log_setup g
              @ [G_printerr ''error: cannot specify busnum:devnum and vid:pid lookups\<newline>'']))
        \<and> ((serial_str g \<noteq> None
              \<and> (vid g \<noteq> 0 \<or> pid g \<noteq> 0 \<or> busnum g \<noteq> 0 \<or> devnum g \<noteq> 0))
            \<or> ((vid g \<noteq> 0 \<or> pid g \<noteq> 0) \<and> (busnum g \<noteq> 0 \<or> devnum g \<noteq> 0)) \<longrightarrow>
           filter is_enumeration (snd (main c None g)) = []
           \<and> filter is_operation (snd (main c None g)) = [])"
      by (rule run)
  qed
  have none: "(manual \<noteq> None \<and> (vid g \<noteq> 0 \<or> pid g \<noteq> 0 \<or> busnum g \<noteq> 0 \<or> devnum g \<noteq> 0))
       \<or> ((vid g \<noteq> 0 \<or> pid g \<noteq> 0) \<and> (busnum g \<noteq> 0 \<or> devnum g \<noteq> 0)) \<longrightarrow>
      fst (select_path c g manual type) = None
      \<and> filter is_enumeration (snd (select_path c g manual type)) = []"
    using quiet[of manual type] by blast
  show ?thesis
    by (intro conjI)
      (rule sel[THEN conjunct1], rule sel[THEN conjunct2, THEN conjunct1],
       rule sel[THEN conjunct2, THEN conjunct2], rule none, rule upd, rule qdl)
qed

text \<open>
  The runs of the specification: the Update run with \<^verbatim>\<open>--device\<close> and
  \<^verbatim>\<open>--vid-pid 1199\<close>, and selection with \<^verbatim>\<open>--vid-pid 1199\<close> and
  \<^verbatim>\<open>--busnum-devnum 1:2\<close>, with the identifiers as the callbacks store them.
\<close>

theorem selection_conflict_order_witness:
  "parse_vid_pid ''1199'' initial_globals = Parse_ok (initial_globals\<lparr>vid := 0x1199\<rparr>)
   \<and> parse_busnum_devnum ''1:2'' (initial_globals\<lparr>vid := 0x1199\<rparr>)
       = Parse_ok (initial_globals\<lparr>vid := 0x1199, busnum := 1, devnum := 2\<rparr>)
   \<and> select_path example_collaborators
        (initial_globals\<lparr>vid := 0x1199, busnum := 1, devnum := 2\<rparr>)
        (Some ''/dev/cdc-wdm0'') QFU_UDEV_HELPER_DEVICE_TYPE_CDC_WDM
       = (None, [G_printerr ''error: cannot specify device path and vid:pid lookup\<newline>''])
   \<and> select_path example_collaborators
        (initial_globals\<lparr>vid := 0x1199, busnum := 1, devnum := 2\<rparr>)
        None QFU_UDEV_HELPER_DEVICE_TYPE_CDC_WDM
       = (None, [G_printerr ''error: cannot specify busnum:devnum and vid:pid lookups\<newline>''])
   \<and> main example_collaborators None
        (update_by_vid_pid\<lparr>device_str := Some ''/dev/cdc-wdm0''\<rparr>)
       = (EXIT_FAILURE,
          [G_printerr ''error: cannot specify device path and vid:pid lookup\<newline>''])
   \<and> main example_collaborators None
        (qdl_with_device_and_vid_pid\<lparr>serial_str := Some ''/dev/ttyUSB0''\<rparr>)
       = (EXIT_FAILURE,
          [G_printerr ''error: cannot specify device path and vid:pid lookup\<newline>''])"
proof -
  let ?b = "initial_globals\<lparr>vid := 0x1199, busnum := 1, devnum := 2\<rparr>"
  let ?u = "update_by_vid_pid\<lparr>device_str := Some ''/dev/cdc-wdm0''\<rparr>"
  let ?q = "qdl_with_device_and_vid_pid\<lparr>serial_str := Some ''/dev/ttyUSB0''\<rparr>"
  note defs = update_by_vid_pid_def qdl_with_device_and_vid_pid_def initial_globals_def
  have p: "parse_vid_pid ''1199'' initial_globals = Parse_ok (initial_globals\<lparr>vid := 0x1199\<rparr>)"
    "parse_busnum_devnum ''1:2'' (initial_globals\<lparr>vid := 0x1199\<rparr>) = Parse_ok ?b"
    by (simp_all add: evaluate_callback)
  have b: "vid ?b = 0x1199" "busnum ?b = 1"
    by (simp_all add: defs)
  have u: "\<not> version_flag ?u" "\<not> help_flag ?u" "image_strv ?u = Some [''fw.cwe'']"
    "action_update_flag ?u" "\<not> action_update_qdl_flag ?u" "\<not> action_verify_flag ?u"
    "device_str ?u = Some ''/dev/cdc-wdm0''" "vid ?u = 0x1199" "log_setup ?u = []"
    by (simp_all add: defs log_setup_def)
  have q: "\<not> version_flag ?q" "\<not> help_flag ?q" "image_strv ?q = Some [''fw.cwe'']"
    "action_update_qdl_flag ?q" "\<not> action_update_flag ?q" "\<not> action_verify_flag ?q"
    "serial_str ?q = Some ''/dev/ttyUSB0''" "vid ?q = 0x1199" "log_setup ?q = []"
    by (simp_all add: defs log_setup_def)
  have s1: "select_path example_collaborators ?b (Some ''/dev/cdc-wdm0'')
      QFU_UDEV_HELPER_DEVICE_TYPE_CDC_WDM
      = (None, [G_printerr ''error: cannot specify device path and vid:pid lookup\<newline>''])"
    using selection_conflict_order[where manual = "Some ''/dev/cdc-wdm0''" and g = ?b
        and c = example_collaborators and type = QFU_UDEV_HELPER_DEVICE_TYPE_CDC_WDM] b
    by simp
  have s2: "select_path example_collaborators ?b None QFU_UDEV_HELPER_DEVICE_TYPE_CDC_WDM
      = (None, [G_printerr ''error: cannot specify busnum:devnum and vid:pid lookups\<newline>''])"
    using selection_conflict_order[where manual = None and g = ?b
        and c = example_collaborators and type = QFU_UDEV_HELPER_DEVICE_TYPE_CDC_WDM] b
    by simp
  have m1: "main example_collaborators None ?u
      = (EXIT_FAILURE,
         [G_printerr ''error: cannot specify device path and vid:pid lookup\<newline>''])"
    using selection_conflict_order[where g = ?u and c = example_collaborators
        and images = "[''fw.cwe'']"] u
    by simp
  have m2: "main example_collaborators None ?q
      = (EXIT_FAILURE,
         [G_printerr ''error: cannot specify device path and vid:pid lookup\<newline>''])"
    using selection_conflict_order[where g = ?q and c = example_collaborators
        and images = "[''fw.cwe'']"] q
    by simp
  from p s1 s2 m1 m2 show ?thesis by simp
qed

text \<open>
  Claim C7. When no exclusivity check fails, device selection does this. A manual
  path is returned as it is, with nothing checked and no helper called. Without a
  manual path the enumeration helper is asked for the sysfs path; if it has none,
  selection fails and prints the helper's error. Otherwise the device nodes of the
  type that goes with the action are listed under that path; if there are none,
  selection fails with \<open>no devices found in sysfs path\<close> and the run ends without
  calling an operation; otherwise the first node of the list is the one selected.
\<close>

theorem select_path_resolution:
  "(vid g = 0 \<and> pid g = 0 \<and> busnum g = 0 \<and> devnum g = 0 \<longrightarrow>
      select_path c g (Some m) type = (Some m, []))
   \<and> (\<not> ((vid g \<noteq> 0 \<or> pid g \<noteq> 0) \<and> (busnum g \<noteq> 0 \<or> devnum g \<noteq> 0)) \<longrightarrow>
      (qfu_udev_helper_find_by_device_info c (vid g) (pid g) (busnum g) (devnum g)
         = Inl message \<longrightarrow>
       select_path c g None type =
         (None,
          [Find_by_device_info (vid g) (pid g) (busnum g) (devnum g),
           G_printerr (''error: '' @ message @ ''\<newline>'')]))
      \<and> (qfu_udev_helper_find_by_device_info c (vid g) (pid g) (busnum g) (devnum g)
            = Inr sysfs_path
          \<and> qfu_udev_helper_list_devices c type sysfs_path = [] \<longrightarrow>
       select_path c g None type =
         (None,
          [Find_by_device_info (vid g) (pid g) (busnum g) (devnum g),
           List_devices type sysfs_path,
           G_printerr (''error: no devices found in sysfs path: '' @ sysfs_path
                       @ ''\<newline>'')]))
      \<and> (qfu_udev_helper_find_by_device_info c (vid g) (pid g) (busnum g) (devnum g)
            = Inr sysfs_path
          \<and> qfu_udev_helper_list_devices c type sysfs_path = file # rest \<longrightarrow>
       select_path c g None type =
         (g_file_get_path file,
          [Find_by_device_info (vid g) (pid g) (busnum g) (devnum g),
           List_devices type sysfs_path])))
   \<and> (\<not> version_flag g \<and> \<not> help_flag g \<and> n_actions g = 1 \<and> image_strv g = Some images
      \<and> \<not> action_verify_flag g
      \<and> fst (select_path c g (if action_update_flag g then device_str g else serial_str g)
               (if action_update_flag g then QFU_UDEV_HELPER_DEVICE_TYPE_CDC_WDM
                else QFU_UDEV_HELPER_DEVICE_TYPE_TTY)) = None \<longrightarrow>
      fst (main c None g) = EXIT_FAILURE
      \<and> filter is_operation (snd (main c None g)) = []
      \<and> snd (main c None g) =
          log_setup g
          @ snd (select_path c g (if action_update_flag g then device_str g else serial_str g)
                   (if action_update_flag g then QFU_UDEV_HELPER_DEVICE_TYPE_CDC_WDM
                    else QFU_UDEV_HELPER_DEVICE_TYPE_TTY)))"
proof -
  have manual: "select_path c g (Some m) type = (Some m, [])"
    if "vid g = 0 \<and> pid g = 0 \<and> busnum g = 0 \<and> devnum g = 0"
    using that by (simp add: select_path_def)
  have lookup: "(qfu_udev_helper_find_by_device_info c (vid g) (pid g) (busnum g) (devnum g)
         = Inl message \<longrightarrow>
       select_path c g None type =
         (None,
          [Find_by_device_info (vid g) (pid g) (busnum g) (devnum g),
           G_printerr (''error: '' @ message @ ''\<newline>'')]))
      \<and> (qfu_udev_helper_find_by_device_info c (vid g) (pid g) (busnum g) (devnum g)
            = Inr sysfs_path
          \<and> qfu_udev_helper_list_devices c type sysfs_path = [] \<longrightarrow>
       select_path c g None type =
         (None,
          [Find_by_device_info (vid g) (pid g) (busnum g) (devnum g),
           List_devices type sysfs_path,
           G_printerr (''error: no devices found in sysfs path: '' @ sysfs_path
                       @ ''\<newline>'')]))
      \<and> (qfu_udev_helper_find_by_device_info c (vid g) (pid g) (busnum g) (devnum g)
            = Inr sysfs_path
          \<and> qfu_udev_helper_list_devices c type sysfs_path = file # rest \<longrightarrow>
       select_path c g None type =
         (g_file_get_path file,
          [Find_by_device_info (vid g) (pid g) (busnum g) (devnum g),
           List_devices type sysfs_path]))"
    if "\<not> ((vid g \<noteq> 0 \<or> pid g \<noteq> 0) \<and> (busnum g \<noteq> 0 \<or> devnum g \<noteq> 0))"
    using that by (auto simp: select_path_def)
  have run: "fst (main c None g) = EXIT_FAILURE
      \<and> filter is_operation (snd (main c None g)) = []
      \<and> snd (main c None g) =
          log_setup g
          @ snd (select_path c g (if action_update_flag g then device_str g else serial_str g)
                   (if action_update_flag g then QFU_UDEV_HELPER_DEVICE_TYPE_CDC_WDM
                    else QFU_UDEV_HELPER_DEVICE_TYPE_TTY))"
    if r: "\<not> version_flag g \<and> \<not> help_flag g \<and> n_actions g = 1 \<and> image_strv g = Some images
      \<and> \<not> action_verify_flag g
      \<and> fst (select_path c g (if action_update_flag g then device_str g else serial_str g)
               (if action_update_flag g then QFU_UDEV_HELPER_DEVICE_TYPE_CDC_WDM
                else QFU_UDEV_HELPER_DEVICE_TYPE_TTY)) = None"
  proof (cases "action_update_flag g")
    case True
    obtain evs where s: "select_path c g (device_str g) QFU_UDEV_HELPER_DEVICE_TYPE_CDC_WDM
        = (None, evs)"
      using r True by (cases "select_path c g (device_str g) QFU_UDEV_HELPER_DEVICE_TYPE_CDC_WDM") simp
    have "filter is_operation evs = []"
      using select_path_no_operation[of c g "device_str g" QFU_UDEV_HELPER_DEVICE_TYPE_CDC_WDM] s
      by simp
    then show ?thesis
      using r True s by (simp add: main_def log_setup_def)
  next
    case False
    have q: "action_update_qdl_flag g"
      using n_actions_one[of g] r False by blast
    obtain evs where s: "select_path c g (serial_str g) QFU_UDEV_HELPER_DEVICE_TYPE_TTY
        = (None, evs)"
      using r False by (cases "select_path c g (serial_str g) QFU_UDEV_HELPER_DEVICE_TYPE_TTY") simp
    have "filter is_operation evs = []"
      using select_path_no_operation[of c g "serial_str g" QFU_UDEV_HELPER_DEVICE_TYPE_TTY] s
      by simp
    then show ?thesis
      using r False q s by (simp add: main_def log_setup_def)
  qed
  from manual lookup run show ?thesis by blast
qed

theorem select_path_resolution_witness:
  "select_path example_collaborators initial_globals (Some ''/dev/ttyUSB0'')
      QFU_UDEV_HELPER_DEVICE_TYPE_TTY = (Some ''/dev/ttyUSB0'', [])
   \<and> select_path example_collaborators update_by_vid_pid None
        QFU_UDEV_HELPER_DEVICE_TYPE_CDC_WDM =
       (Some ''/dev/cdc-wdm0'',
        [Find_by_device_info 0x1199 0x9071 0 0,
         List_devices QFU_UDEV_HELPER_DEVICE_TYPE_CDC_WDM ''/sys/bus/usb/devices/1-2''])
   \<and> select_path no_device_nodes update_by_vid_pid None
        QFU_UDEV_HELPER_DEVICE_TYPE_CDC_WDM =
       (None,
        [Find_by_device_info 0x1199 0x9071 0 0,
         List_devices QFU_UDEV_HELPER_DEVICE_TYPE_CDC_WDM ''/sys/bus/usb/devices/1-2'',
         G_printerr ''error: no devices found in sysfs path: /sys/bus/usb/devices/1-2\<newline>''])
   \<and> main no_device_nodes None update_by_vid_pid =
       (EXIT_FAILURE,
        [Find_by_device_info 0x1199 0x9071 0 0,
         List_devices QFU_UDEV_HELPER_DEVICE_TYPE_CDC_WDM ''/sys/bus/usb/devices/1-2'',
         G_printerr ''error: no devices found in sysfs path: /sys/bus/usb/devices/1-2\<newline>''])"
proof -
  note defs = example_collaborators_def no_device_nodes_def update_by_vid_pid_def
    initial_globals_def
  have pre: "\<not> version_flag update_by_vid_pid" "\<not> help_flag update_by_vid_pid"
    "n_actions update_by_vid_pid = 1" "image_strv update_by_vid_pid = Some [''fw.cwe'']"
    "\<not> action_verify_flag update_by_vid_pid" "action_update_flag update_by_vid_pid"
    "device_str update_by_vid_pid = None" "log_setup update_by_vid_pid = []"
    "vid update_by_vid_pid = 0x1199" "pid update_by_vid_pid = 0x9071"
    "busnum update_by_vid_pid = 0" "devnum update_by_vid_pid = 0"
    by (simp_all add: defs n_actions_def log_setup_def)
  have col: "qfu_udev_helper_find_by_device_info example_collaborators 0x1199 0x9071 0 0
      = Inr ''/sys/bus/usb/devices/1-2''"
    "qfu_udev_helper_list_devices example_collaborators QFU_UDEV_HELPER_DEVICE_TYPE_CDC_WDM
       ''/sys/bus/usb/devices/1-2'' = [GFile (Some ''/dev/cdc-wdm0'')]"
    "qfu_udev_helper_find_by_device_info no_device_nodes 0x1199 0x9071 0 0
      = Inr ''/sys/bus/usb/devices/1-2''"
    "qfu_udev_helper_list_devices no_device_nodes QFU_UDEV_HELPER_DEVICE_TYPE_CDC_WDM
       ''/sys/bus/usb/devices/1-2'' = []"
    by (simp_all add: defs)
  have ini: "vid initial_globals = 0" "pid initial_globals = 0" "busnum initial_globals = 0"
    "devnum initial_globals = 0"
    by (simp_all add: initial_globals_def)
  have a: "select_path example_collaborators initial_globals (Some ''/dev/ttyUSB0'')
      QFU_UDEV_HELPER_DEVICE_TYPE_TTY = (Some ''/dev/ttyUSB0'', [])"
    using select_path_resolution[of initial_globals example_collaborators "''/dev/ttyUSB0''"
        QFU_UDEV_HELPER_DEVICE_TYPE_TTY] ini
    by simp
  have b: "select_path example_collaborators update_by_vid_pid None
        QFU_UDEV_HELPER_DEVICE_TYPE_CDC_WDM =
       (Some ''/dev/cdc-wdm0'',
        [Find_by_device_info 0x1199 0x9071 0 0,
         List_devices QFU_UDEV_HELPER_DEVICE_TYPE_CDC_WDM ''/sys/bus/usb/devices/1-2''])"
    using select_path_resolution[of update_by_vid_pid example_collaborators _
        QFU_UDEV_HELPER_DEVICE_TYPE_CDC_WDM _ "''/sys/bus/usb/devices/1-2''"
        "GFile (Some ''/dev/cdc-wdm0'')" "[]"] pre col
    by simp
  have c: "select_path no_device_nodes update_by_vid_pid None
        QFU_UDEV_HELPER_DEVICE_TYPE_CDC_WDM =
       (None,
        [Find_by_device_info 0x1199 0x9071 0 0,
         List_devices QFU_UDEV_HELPER_DEVICE_TYPE_CDC_WDM ''/sys/bus/usb/devices/1-2'',
         G_printerr ''error: no devices found in sysfs path: /sys/bus/usb/devices/1-2\<newline>''])"
    using select_path_resolution[of update_by_vid_pid no_device_nodes _
        QFU_UDEV_HELPER_DEVICE_TYPE_CDC_WDM _ "''/sys/bus/usb/devices/1-2''"] pre col
    by simp
  have d: "main no_device_nodes None update_by_vid_pid =
       (EXIT_FAILURE,
        [Find_by_device_info 0x1199 0x9071 0 0,
         List_devices QFU_UDEV_HELPER_DEVICE_TYPE_CDC_WDM ''/sys/bus/usb/devices/1-2'',
         G_printerr ''error: no devices found in sysfs path: /sys/bus/usb/devices/1-2\<newline>''])"
    using select_path_resolution[of update_by_vid_pid no_device_nodes _ _ _ _ _ _
        "[''fw.cwe'']"] pre c
    by (simp add: prod_eq_iff)
  from a b c d show ?thesis by simp
qed

subsection \<open>Validation and dispatch in the main program\<close>

text \<open>
  Claim C5 says that every run with no action flag, or with more than one, fails
  with the matching error. The version and help requests are served before the
  actions are counted: with \<^verbatim>\<open>--version\<close> or \<^verbatim>\<open>--help\<close> and no action flag the
  run prints the text and exits successfully, and no action error is printed.
\<close>

theorem version_and_help_need_no_action:
  "n_actions (initial_globals\<lparr>version_flag := True\<rparr>) = 0
   \<and> main example_collaborators None (initial_globals\<lparr>version_flag := True\<rparr>)
       = (EXIT_SUCCESS, [Print_version])
   \<and> n_actions (initial_globals\<lparr>help_flag := True\<rparr>) = 0
   \<and> main example_collaborators None (initial_globals\<lparr>help_flag := True\<rparr>)
       = (EXIT_SUCCESS, [Print_help])"
  by (simp add: main_def n_actions_def initial_globals_def)

text \<open>
  Claim C5, amended. For every run whose options were parsed and that asks neither
  for the version nor for the help text: with no action flag the run fails with
  \<open>no actions specified\<close>, with more than one it fails with
  \<open>too many actions specified\<close>, and in both cases no operation is called and the
  exit status is failure.
\<close>

theorem action_count_validation:
  assumes "\<not> version_flag g" "\<not> help_flag g"
  shows
    "(\<not> action_update_flag g \<and> \<not> action_update_qdl_flag g \<and> \<not> action_verify_flag g \<longrightarrow>
        main c None g =
          (EXIT_FAILURE, log_setup g @ [G_printerr ''error: no actions specified\<newline>'']))
     \<and> (action_update_flag g \<and> action_update_qdl_flag g
        \<or> action_update_flag g \<and> action_verify_flag g
        \<or> action_update_qdl_flag g \<and> action_verify_flag g \<longrightarrow>
        main c None g =
          (EXIT_FAILURE, log_setup g @ [G_printerr ''error: too many actions specified\<newline>'']))
     \<and> (n_actions g \<noteq> 1 \<longrightarrow>
        fst (main c None g) = EXIT_FAILURE
        \<and> filter is_operation (snd (main c None g)) = [])"
  using assms
  by (cases "action_verify_flag g"; cases "action_update_flag g";
      cases "action_update_qdl_flag g")
    (simp_all add: main_def n_actions_def log_setup_def)

theorem action_count_validation_witness:
  "\<not> version_flag initial_globals \<and> \<not> help_flag initial_globals
   \<and> main example_collaborators None initial_globals
       = (EXIT_FAILURE, [G_printerr ''error: no actions specified\<newline>''])
   \<and> main example_collaborators None
        (verify_plain\<lparr>action_update_flag := True, verbose_flag := True\<rparr>)
       = (EXIT_FAILURE,
          [Set_traces_enabled, G_printerr ''error: too many actions specified\<newline>''])"
proof -
  have pre: "\<not> version_flag initial_globals" "\<not> help_flag initial_globals"
    "\<not> version_flag (verify_plain\<lparr>action_update_flag := True, verbose_flag := True\<rparr>)"
    "\<not> help_flag (verify_plain\<lparr>action_update_flag := True, verbose_flag := True\<rparr>)"
    by (simp_all add: verify_plain_def initial_globals_def)
  from action_count_validation[OF pre(1,2), of example_collaborators]
    action_count_validation[OF pre(3,4), of example_collaborators] pre
  show ?thesis
    by (simp add: verify_plain_def initial_globals_def log_setup_def)
qed

text \<open>
  Claim C6 says that a run without positional arguments fails with
  \<open>no firmware images specified\<close> even when the requested actions are themselves
  invalid. The actions are counted first: without images and without an action the
  error is \<open>no actions specified\<close>, and with two actions it is
  \<open>too many actions specified\<close>.
\<close>

theorem action_errors_come_first:
  "image_strv initial_globals = None
   \<and> main example_collaborators None initial_globals
       = (EXIT_FAILURE, [G_printerr ''error: no actions specified\<newline>''])
   \<and> image_strv (initial_globals\<lparr>action_update_flag := True, action_verify_flag := True\<rparr>)
       = None
   \<and> main example_collaborators None
        (initial_globals\<lparr>action_update_flag := True, action_verify_flag := True\<rparr>)
       = (EXIT_FAILURE, [G_printerr ''error: too many actions specified\<newline>''])"
  by (simp add: main_def n_actions_def initial_globals_def log_setup_def)

text \<open>
  Claim C6, amended. For every run whose options were parsed, that asks neither for
  the version nor for the help text and that requests exactly one action: without
  positional arguments the run fails with \<open>no firmware images specified\<close>, whichever
  of the three actions it is, and no operation is called.
\<close>

theorem image_list_validation:
  assumes "\<not> version_flag g" "\<not> help_flag g" "n_actions g = 1" "image_strv g = None"
  shows
    "main c None g =
       (EXIT_FAILURE, log_setup g @ [G_printerr ''error: no firmware images specified\<newline>''])
     \<and> filter is_operation (snd (main c None g)) = []"
  using assms by (simp add: main_def log_setup_def)

theorem image_list_validation_witness:
  "\<not> version_flag (initial_globals\<lparr>action_verify_flag := True\<rparr>)
   \<and> \<not> help_flag (initial_globals\<lparr>action_verify_flag := True\<rparr>)
   \<and> n_actions (initial_globals\<lparr>action_verify_flag := True\<rparr>) = 1
   \<and> image_strv (initial_globals\<lparr>action_verify_flag := True\<rparr>) = None
   \<and> main example_collaborators None (initial_globals\<lparr>action_verify_flag := True\<rparr>)
       = (EXIT_FAILURE, [G_printerr ''error: no firmware images specified\<newline>''])"
proof -
  have pre: "\<not> version_flag (initial_globals\<lparr>action_verify_flag := True\<rparr>)"
    "\<not> help_flag (initial_globals\<lparr>action_verify_flag := True\<rparr>)"
    "n_actions (initial_globals\<lparr>action_verify_flag := True\<rparr>) = 1"
    "image_strv (initial_globals\<lparr>action_verify_flag := True\<rparr>) = None"
    by (simp_all add: initial_globals_def n_actions_def)
  from image_list_validation[OF pre, of example_collaborators] pre
  show ?thesis by (simp add: log_setup_def initial_globals_def)
qed

text \<open>
  Claim C8. An Update run resolves its device with the cdc-wdm type and the
  \<^verbatim>\<open>--device\<close> path as the manual path, and calls the update operation once, with
  the image list, the resolved path, the firmware version, the config version, the
  carrier, the proxy flag and the MBIM flag. An UpdateQdl run resolves with the TTY
  type and the \<^verbatim>\<open>--serial\<close> path as the manual path, through the same
  \<open>select_path\<close> and so the same exclusivity checks, and calls the QDL update
  operation once, with the image list and the resolved path. If the resolution
  fails, the run ends there with a failure status.
\<close>

theorem dispatch_binding:
  assumes "\<not> version_flag g" "\<not> help_flag g" "image_strv g = Some images"
  shows
    "(action_update_flag g \<and> \<not> action_update_qdl_flag g \<and> \<not> action_verify_flag g
      \<and> select_path c g (device_str g) QFU_UDEV_HELPER_DEVICE_TYPE_CDC_WDM = (Some path, evs)
      \<longrightarrow>
        main c None g =
          (exit_of (qfu_operation_update_run c images path (firmware_version_str g)
                      (config_version_str g) (carrier_str g) (device_open_proxy_flag g)
                      (device_open_mbim_flag g)),
           log_setup g @ evs @
           [G_debug (''using cdc-wdm device: '' @ path),
            Update_run images path (firmware_version_str g) (config_version_str g)
              (carrier_str g) (device_open_proxy_flag g) (device_open_mbim_flag g)])
        \<and> filter is_operation (snd (main c None g)) =
            [Update_run images path (firmware_version_str g) (config_version_str g)
               (carrier_str g) (device_open_proxy_flag g) (device_open_mbim_flag g)])
     \<and> (action_update_flag g \<and> \<not> action_update_qdl_flag g \<and> \<not> action_verify_flag g
      \<and> select_path c g (device_str g) QFU_UDEV_HELPER_DEVICE_TYPE_CDC_WDM = (None, evs)
      \<longrightarrow> main c None g = (EXIT_FAILURE, log_setup g @ evs))
     \<and> (action_update_qdl_flag g \<and> \<not> action_update_flag g \<and> \<not> action_verify_flag g
      \<and> select_path c g (serial_str g) QFU_UDEV_HELPER_DEVICE_TYPE_TTY = (Some path, evs)
      \<longrightarrow>
        main c None g =
          (exit_of (qfu_operation_update_qdl_run c images path),
           log_setup g @ evs @
           [G_debug (''using tty device: '' @ path), Update_qdl_run images path])
        \<and> filter is_operation (snd (main c None g)) = [Update_qdl_run images path])
     \<and> (action_update_qdl_flag g \<and> \<not> action_update_flag g \<and> \<not> action_verify_flag g
      \<and> select_path c g (serial_str g) QFU_UDEV_HELPER_DEVICE_TYPE_TTY = (None, evs)
      \<longrightarrow> main c None g = (EXIT_FAILURE, log_setup g @ evs))"
proof -
  have quiet: "filter is_operation evs = []"
    if "select_path c g manual type = (r, evs)" for manual type r
    using select_path_no_operation[of c g manual type] that by simp
  have update: "main c None g =
          (exit_of (qfu_operation_update_run c images path (firmware_version_str g)
                      (config_version_str g) (carrier_str g) (device_open_proxy_flag g)
                      (device_open_mbim_flag g)),
           log_setup g @ evs @
           [G_debug (''using cdc-wdm device: '' @ path),
            Update_run images path (firmware_version_str g) (config_version_str g)
              (carrier_str g) (device_open_proxy_flag g) (device_open_mbim_flag g)])
        \<and> filter is_operation (snd (main c None g)) =
            [Update_run images path (firmware_version_str g) (config_version_str g)
               (carrier_str g) (device_open_proxy_flag g) (device_open_mbim_flag g)]"
    if "action_update_flag g \<and> \<not> action_update_qdl_flag g \<and> \<not> action_verify_flag g
      \<and> select_path c g (device_str g) QFU_UDEV_HELPER_DEVICE_TYPE_CDC_WDM = (Some path, evs)"
    using that assms quiet[of "device_str g" QFU_UDEV_HELPER_DEVICE_TYPE_CDC_WDM "Some path"]
    by (simp add: main_def n_actions_def filter_log_setup)
  have update_fails: "main c None g = (EXIT_FAILURE, log_setup g @ evs)"
    if "action_update_flag g \<and> \<not> action_update_qdl_flag g \<and> \<not> action_verify_flag g
      \<and> select_path c g (device_str g) QFU_UDEV_HELPER_DEVICE_TYPE_CDC_WDM = (None, evs)"
    using that assms by (simp add: main_def n_actions_def)
  have qdl: "main c None g =
          (exit_of (qfu_operation_update_qdl_run c images path),
           log_setup g @ evs @
           [G_debug (''using tty device: '' @ path), Update_qdl_run images path])
        \<and> filter is_operation (snd (main c None g)) = [Update_qdl_run images path]"
    if "action_update_qdl_flag g \<and> \<not> action_update_flag g \<and> \<not> action_verify_flag g
      \<and> select_path c g (serial_str g) QFU_UDEV_HELPER_DEVICE_TYPE_TTY = (Some path, evs)"
    using that assms quiet[of "serial_str g" QFU_UDEV_HELPER_DEVICE_TYPE_TTY "Some path"]
    by (simp add: main_def n_actions_def filter_log_setup)
  have qdl_fails: "main c None g = (EXIT_FAILURE, log_setup g @ evs)"
    if "action_update_qdl_flag g \<and> \<not> action_update_flag g \<and> \<not> action_verify_flag g
      \<and> select_path c g (serial_str g) QFU_UDEV_HELPER_DEVICE_TYPE_TTY = (None, evs)"
    using that assms by (simp add: main_def n_actions_def)
  from update update_fails qdl qdl_fails show ?thesis by blast
qed

text \<open>
  The run \<^verbatim>\<open>--update --vid-pid 1199:9071 fw.cwe\<close> of the specification, and a QDL
  run with \<^verbatim>\<open>--serial /dev/ttyUSB0\<close>.
\<close>

theorem dispatch_binding_witness:
  "main example_collaborators None update_by_vid_pid =
     (EXIT_SUCCESS,
      [Find_by_device_info 0x1199 0x9071 0 0,
       List_devices QFU_UDEV_HELPER_DEVICE_TYPE_CDC_WDM ''/sys/bus/usb/devices/1-2'',
       G_debug ''using cdc-wdm device: /dev/cdc-wdm0'',
       Update_run [''fw.cwe''] ''/dev/cdc-wdm0'' None None None False False])
   \<and> main example_collaborators None
       (initial_globals\<lparr>action_update_qdl_flag := True, serial_str := Some ''/dev/ttyUSB0'',
                        image_strv := Some [''fw.cwe'']\<rparr>) =
     (EXIT_SUCCESS,
      [G_debug ''using tty device: /dev/ttyUSB0'',
       Update_qdl_run [''fw.cwe''] ''/dev/ttyUSB0''])"
proof -
  note defs = example_collaborators_def update_by_vid_pid_def initial_globals_def
  let ?q = "initial_globals\<lparr>action_update_qdl_flag := True, serial_str := Some ''/dev/ttyUSB0'',
                        image_strv := Some [''fw.cwe'']\<rparr>"
  have u: "\<not> version_flag update_by_vid_pid" "\<not> help_flag update_by_vid_pid"
    "image_strv update_by_vid_pid = Some [''fw.cwe'']"
    and q: "\<not> version_flag ?q" "\<not> help_flag ?q" "image_strv ?q = Some [''fw.cwe'']"
    by (simp_all add: defs)
  have su: "select_path example_collaborators update_by_vid_pid (device_str update_by_vid_pid)
        QFU_UDEV_HELPER_DEVICE_TYPE_CDC_WDM =
       (Some ''/dev/cdc-wdm0'',
        [Find_by_device_info 0x1199 0x9071 0 0,
         List_devices QFU_UDEV_HELPER_DEVICE_TYPE_CDC_WDM ''/sys/bus/usb/devices/1-2''])"
    and sq: "select_path example_collaborators ?q (serial_str ?q)
        QFU_UDEV_HELPER_DEVICE_TYPE_TTY = (Some ''/dev/ttyUSB0'', [])"
    by (simp_all add: select_path_def defs)
  from dispatch_binding[OF u, of example_collaborators "''/dev/cdc-wdm0''"
      "[Find_by_device_info 0x1199 0x9071 0 0,
        List_devices QFU_UDEV_HELPER_DEVICE_TYPE_CDC_WDM ''/sys/bus/usb/devices/1-2'']"]
    dispatch_binding[OF q, of example_collaborators "''/dev/ttyUSB0''" "[]"] su sq
  show ?thesis
    by (simp add: defs log_setup_def exit_of_def)
qed

text \<open>
  Claim C9. A Verify run with positional arguments and no selection option makes no
  device resolution: no enumeration helper is called, the verify operation is
  called with the image list alone, and the exit status is success exactly when the
  operation reports success.
\<close>

theorem verify_without_resolution:
  assumes "\<not> version_flag g" "\<not> help_flag g"
    and "action_verify_flag g" "\<not> action_update_flag g" "\<not> action_update_qdl_flag g"
    and "image_strv g = Some images"
    and "device_str g = None" "serial_str g = None" "identifiers_unset g"
  shows
    "main c None g =
       (if qfu_operation_verify_run c images then EXIT_SUCCESS else EXIT_FAILURE,
        log_setup g @ [Verify_run images])
     \<and> filter is_enumeration (snd (main c None g)) = []
     \<and> filter is_operation (snd (main c None g)) = [Verify_run images]
     \<and> (fst (main c None g) = EXIT_SUCCESS) = qfu_operation_verify_run c images"
  using main_verify[OF assms(1-6), of c]
  by (simp add: exit_of_def filter_log_setup)

theorem verify_without_resolution_witness:
  "main example_collaborators None verify_plain =
     (EXIT_SUCCESS, [Verify_run [''file1.cwe'', ''file2.nvu'']])
   \<and> main (example_collaborators\<lparr>qfu_operation_verify_run := (\<lambda>images. False)\<rparr>) None
       verify_plain =
     (EXIT_FAILURE, [Verify_run [''file1.cwe'', ''file2.nvu'']])"
proof -
  have pre: "\<not> version_flag verify_plain" "\<not> help_flag verify_plain"
    "action_verify_flag verify_plain" "\<not> action_update_flag verify_plain"
    "\<not> action_update_qdl_flag verify_plain"
    "image_strv verify_plain = Some [''file1.cwe'', ''file2.nvu'']"
    "device_str verify_plain = None" "serial_str verify_plain = None"
    "identifiers_unset verify_plain"
    by (simp_all add: verify_plain_def initial_globals_def identifiers_unset_def)
  from verify_without_resolution[OF pre, of example_collaborators]
    verify_without_resolution[OF pre,
      of "example_collaborators\<lparr>qfu_operation_verify_run := (\<lambda>images. False)\<rparr>"]
  show ?thesis
    by (simp add: example_collaborators_def log_setup_def verify_plain_def
        initial_globals_def)
qed

text \<open>
  Claim C10. The exclusivity checks live in \<open>select_path\<close>, which a Verify run
  never calls. So a Verify run does not depend on the selection options at all:
  whatever the manual paths and the four identifiers hold, it prints no error and
  calls the verify operation. The run that combines \<^verbatim>\<open>--verify\<close> with a manual
  path, a vid:pid and a busnum:devnum exits successfully when the operation does,
  although \<open>select_path\<close> would reject this combination.
\<close>

theorem verify_ignores_selection:
  assumes "\<not> version_flag g" "\<not> help_flag g"
    and "action_verify_flag g" "\<not> action_update_flag g" "\<not> action_update_qdl_flag g"
    and "image_strv g = Some images"
  shows
    "main c None
       (g\<lparr>device_str := d, serial_str := s, vid := v, pid := p, busnum := b, devnum := n\<rparr>)
       = main c None g
     \<and> snd (main c None g) = log_setup g @ [Verify_run images]
     \<and> filter is_printerr (snd (main c None g)) = []
     \<and> fst (main c None g) = exit_of (qfu_operation_verify_run c images)
     \<and> fst (select_path example_collaborators verify_with_all_selections
              (device_str verify_with_all_selections) QFU_UDEV_HELPER_DEVICE_TYPE_CDC_WDM)
         = None
     \<and> main example_collaborators None verify_with_all_selections =
         (EXIT_SUCCESS, [Verify_run [''file1.cwe'', ''file2.nvu'']])"
proof -
  let ?g = "g\<lparr>device_str := d, serial_str := s, vid := v, pid := p, busnum := b, devnum := n\<rparr>"
  have "main c None ?g =
      (exit_of (qfu_operation_verify_run c images), log_setup ?g @ [Verify_run images])"
    using assms by (intro main_verify) simp_all
  moreover have "log_setup ?g = log_setup g"
    by (simp add: log_setup_def)
  moreover note main_verify[OF assms, of c]
  moreover have "fst (select_path example_collaborators verify_with_all_selections
              (device_str verify_with_all_selections) QFU_UDEV_HELPER_DEVICE_TYPE_CDC_WDM)
         = None"
    by (simp add: select_path_def verify_with_all_selections_def verify_plain_def
        initial_globals_def)
  moreover have "main example_collaborators None verify_with_all_selections =
         (EXIT_SUCCESS, [Verify_run [''file1.cwe'', ''file2.nvu'']])"
    by (simp add: main_def n_actions_def log_setup_def exit_of_def
        verify_with_all_selections_def verify_plain_def initial_globals_def
        example_collaborators_def)
  ultimately show ?thesis
    by (simp add: filter_log_setup)
qed

theorem verify_ignores_selection_witness:
  "main example_collaborators None
     (verify_plain\<lparr>device_str := Some ''/dev/cdc-wdm0'', serial_str := None, vid := 0x1199,
                   pid := 0x9071, busnum := 1, devnum := 2\<rparr>)
     = main example_collaborators None verify_plain
   \<and> main example_collaborators None verify_plain
     = (EXIT_SUCCESS, [Verify_run [''file1.cwe'', ''file2.nvu'']])
   \<and> select_path example_collaborators
       (verify_plain\<lparr>device_str := Some ''/dev/cdc-wdm0'', serial_str := None, vid := 0x1199,
                     pid := 0x9071, busnum := 1, devnum := 2\<rparr>)
       (Some ''/dev/cdc-wdm0'') QFU_UDEV_HELPER_DEVICE_TYPE_CDC_WDM
     = (None, [G_printerr ''error: cannot specify device path and vid:pid lookup\<newline>''])"
proof -
  have pre: "\<not> version_flag verify_plain" "\<not> help_flag verify_plain"
    "action_verify_flag verify_plain" "\<not> action_update_flag verify_plain"
    "\<not> action_update_qdl_flag verify_plain"
    "image_strv verify_plain = Some [''file1.cwe'', ''file2.nvu'']"
    by (simp_all add: verify_plain_def initial_globals_def)
  have sel: "select_path example_collaborators
       (verify_plain\<lparr>device_str := Some ''/dev/cdc-wdm0'', serial_str := None, vid := 0x1199,
                     pid := 0x9071, busnum := 1, devnum := 2\<rparr>)
       (Some ''/dev/cdc-wdm0'') QFU_UDEV_HELPER_DEVICE_TYPE_CDC_WDM
     = (None, [G_printerr ''error: cannot specify device path and vid:pid lookup\<newline>''])"
    by (simp add: select_path_def)
  from verify_ignores_selection[OF pre, where c = example_collaborators
      and d = "Some ''/dev/cdc-wdm0''" and s = None and v = "0x1199" and p = "0x9071"
      and b = 1 and n = 2] sel
  show ?thesis
    by (simp add: prod_eq_iff example_collaborators_def log_setup_def exit_of_def
        verify_plain_def initial_globals_def)
qed

end
